theory Spec2Isabelle
  imports Complex_Main
begin

section \<open>Python values, exceptions and the log stream\<close>

text \<open>
  The playblast controller \<open>BPlayblast\<close> of \<open>main.py\<close> is embedded function by function.
  A Python exception is a value of \<open>pyexc\<close>; a method that may raise returns
  \<open>pyexc + 'a\<close> with \<open>Inl\<close> for the exception that leaves the method.
\<close>

datatype pyexc =
  KeyError | NameError | TypeError | IndexError | ValueError
  | RuntimeError | ZeroDivisionError | AttributeError

datatype level = ERROR | WARNING | INFO

text \<open>
  One entry of the log stream: the level, the text handed to \<open>log_error\<close>,
  \<open>log_warning\<close> or \<open>log_output\<close>, and whether the entry was also shown in the host's
  script editor (\<open>_log_to_maya\<close>). Every entry is emitted on the \<open>output_logged\<close> signal.
\<close>

datatype log_entry = Entry (entry_level: level) (entry_text: string) (entry_to_maya: bool)

text \<open>Truthiness of a Python string and \<open>str.endswith\<close>.\<close>

definition truthy :: "string \<Rightarrow> bool" where
  "truthy s = (s \<noteq> [])"

definition endswith :: "string \<Rightarrow> string \<Rightarrow> bool" where
  "endswith s suf = (length suf \<le> length s \<and> drop (length s - length suf) s = suf)"

text \<open>\<open>repr\<close> of a list of plain strings, as an f-string prints it.\<close>

fun join_strs :: "string \<Rightarrow> string list \<Rightarrow> string" where
  "join_strs sep [] = []"
| "join_strs sep [x] = x"
| "join_strs sep (x # y # ys) = x @ sep @ join_strs sep (y # ys)"

definition quoted :: "string \<Rightarrow> string" where
  "quoted s = [CHR 0x27] @ s @ [CHR 0x27]"

definition repr_list :: "string list \<Rightarrow> string" where
  "repr_list xs = ''['' @ join_strs '', '' (map quoted xs) @ '']''"

definition repr_keys :: "string list \<Rightarrow> string" where
  "repr_keys xs = ''dict_keys('' @ repr_list xs @ '')''"

text \<open>\<open>str\<close> of a non-negative Python int.\<close>

fun str_nat :: "nat \<Rightarrow> string" where
  "str_nat n = (if n < 10 then [char_of (48 + n)] else str_nat (n div 10) @ [char_of (48 + n mod 10)])"

declare str_nat.simps [simp del]

definition str_int :: "int \<Rightarrow> string" where
  "str_int i = (if i < 0 then ''-'' @ str_nat (nat (- i)) else str_nat (nat i))"

section \<open>Class constants\<close>

definition DEFAULT_FFMPEG_PATH :: string where
  "DEFAULT_FFMPEG_PATH = ''''"

definition DEFAULT_PADDING :: int where
  "DEFAULT_PADDING = 4"

definition RESOLUTION_LOOKUP :: "(string \<times> (int \<times> int) option) list" where
  "RESOLUTION_LOOKUP =
    [(''Render'', None),
     (''HD 1080'', Some (1920, 1080)),
     (''HD 720'', Some (1280, 720)),
     (''HD 540'', Some (960, 540))]"

definition FRAME_RANGE_PRESETS :: "string list" where
  "FRAME_RANGE_PRESETS = [''Render'', ''Playback'', ''Animation'']"

definition VIDEO_ENCODER_LOOKUP :: "(string \<times> string list) list" where
  "VIDEO_ENCODER_LOOKUP =
    [(''mov'', [''h264'']),
     (''mp4'', [''h264'']),
     (''Image'', [''jpg'', ''png'', ''tif''])]"

definition H264_QUALITIES :: "(string \<times> nat) list" where
  "H264_QUALITIES =
    [(''Very high'', 18), (''High'', 20), (''Medium'', 23), (''Low'', 26)]"

definition H264_PRESETS :: "string list" where
  "H264_PRESETS = [''veryslow'', ''slow'', ''medium'', ''fast'', ''faster'', ''ultrafast'']"

text \<open>The catalog of viewport visibility categories: display label and host flag name.\<close>

definition VIEWPORT_VISIBILITY_LOOKUP :: "(string \<times> string) list" where
  "VIEWPORT_VISIBILITY_LOOKUP =
    [(''Controllers'', ''controllers''),
     (''NURBS Curves'', ''nurbsCurves''),
     (''NURBS Surfaces'', ''nurbsSurfaces''),
     (''NURBS CVs'', ''cv''),
     (''NURBS Hulls'', ''hulls''),
     (''Polygons'', ''polymeshes''),
     (''Subdiv Surfaces'', ''subdivSurfaces''),
     (''Planes'', ''planes''),
     (''Lights'', ''lights''),
     (''Cameras'', ''cameras''),
     (''Image Planes'', ''imagePlane''),
     (''Joints'', ''joints''),
     (''IK Handles'', ''ikHandles''),
     (''Deformers'', ''deformers''),
     (''Dynamics'', ''dynamics''),
     (''Particle Instancers'', ''particleInstancers''),
     (''Fluids'', ''fluids''),
     (''Hair Systems'', ''hairSystems''),
     (''Follicles'', ''follicles''),
     (''nCloths'', ''nCloths''),
     (''nParticles'', ''nParticles''),
     (''nRigids'', ''nRigids''),
     (''Dynamic Constraints'', ''dynamicConstraints''),
     (''Locators'', ''locators''),
     (''Dimensions'', ''dimensions''),
     (''Pivots'', ''pivots''),
     (''Handles'', ''handles''),
     (''Texture Placements'', ''textures''),
     (''Strokes'', ''strokes''),
     (''Motion Trails'', ''motionTrails''),
     (''Plugin Shapes'', ''pluginShapes''),
     (''Clip Ghosts'', ''clipGhosts''),
     (''Grease Pencil'', ''greasePencils''),
     (''Grid'', ''grid''),
     (''HUD'', ''hud''),
     (''Hold-Outs'', ''hos''),
     (''Selection Highlighting'', ''sel'')]"

definition VIEWPORT_VISIBILITY_PRESETS :: "(string \<times> string list) list" where
  "VIEWPORT_VISIBILITY_PRESETS =
    [(''Viewport'', []),
     (''Geo'', [''NURBS Surfaces'', ''Polygons'']),
     (''Dynamics'', [''NURBS Surfaces'', ''Polygons'', ''Dynamics'', ''Fluids'', ''nParticles''])]"

section \<open>The controller's attributes\<close>

text \<open>
  The attributes of a \<open>BPlayblast\<close> instance. \<open>_width_height\<close> is the one attribute
  that \<open>__init__\<close> may leave unset (when the first \<open>set_resolution\<close> is rejected), so
  it is optional here and reading it unset is an \<open>AttributeError\<close>.
\<close>

record bplayblast =
  self_ffmpeg_path :: string
  self_log_to_maya :: bool
  self_camera :: "string option"
  self_resolution_preset :: "string option"
  self_width_height :: "(int \<times> int) option"
  self_frame_range_preset :: "string option"
  self_start_frame :: real
  self_end_frame :: real
  self_container_format :: string
  self_encoder :: string
  self_h264_quality :: string
  self_h264_preset :: string
  self_image_quality :: int
  self_visibility :: "bool list"

definition log_error :: "bplayblast \<Rightarrow> string \<Rightarrow> log_entry list" where
  "log_error s t = [Entry ERROR t (self_log_to_maya s)]"

definition log_warning :: "bplayblast \<Rightarrow> string \<Rightarrow> log_entry list" where
  "log_warning s t = [Entry WARNING t (self_log_to_maya s)]"

definition log_output :: "bplayblast \<Rightarrow> string \<Rightarrow> log_entry list" where
  "log_output s t = [Entry INFO t (self_log_to_maya s)]"

definition errors_of :: "log_entry list \<Rightarrow> log_entry list" where
  "errors_of lg = filter (\<lambda>e. entry_level e = ERROR) lg"

section \<open>Validated setters\<close>

text \<open>
  \<open>set_encoding\<close>: both membership tests only log; the dictionary subscript
  \<open>VIDEO_ENCODER_LOOKUP[container_format]\<close> raises \<open>KeyError\<close> for an unknown
  container, and the two assignments at the end are unconditional.
\<close>

definition set_encoding ::
  "bplayblast \<Rightarrow> string \<Rightarrow> string \<Rightarrow> (pyexc + bplayblast) \<times> log_entry list" where
  "set_encoding s container_format encoder =
    (let containers = map fst VIDEO_ENCODER_LOOKUP;
         log1 = (if container_format \<notin> set containers
                 then log_error s (''Invalid container: '' @ container_format
                        @ ''. Expected one of '' @ repr_keys containers)
                 else [])
     in case map_of VIDEO_ENCODER_LOOKUP container_format of
          None \<Rightarrow> (Inl KeyError, log1)
        | Some encoders \<Rightarrow>
            (let log2 = (if encoder \<notin> set encoders
                         then log_error s (''Invalid encoder: '' @ encoder
                                @ ''. Expected one of '' @ repr_list encoders)
                         else [])
             in (Inr (s\<lparr>self_container_format := container_format, self_encoder := encoder\<rparr>),
                 log1 @ log2)))"

text \<open>\<open>set_h264_settings\<close> returns right after each log line, before any assignment.\<close>

definition set_h264_settings :: "bplayblast \<Rightarrow> string \<Rightarrow> string \<Rightarrow> bplayblast \<times> log_entry list" where
  "set_h264_settings s quality preset =
    (if quality \<notin> set (map fst H264_QUALITIES)
     then (s, log_error s (''Invalid h264 quality: '' @ quality
                 @ ''. Expected of '' @ repr_keys (map fst H264_QUALITIES)))
     else if preset \<notin> set H264_PRESETS
     then (s, log_error s (''Invalid h264 preset: '' @ preset
                 @ ''. Expected of '' @ repr_list H264_PRESETS))
     else (s\<lparr>self_h264_quality := quality, self_h264_preset := preset\<rparr>, []))"

definition set_image_settings :: "bplayblast \<Rightarrow> int \<Rightarrow> bplayblast \<times> log_entry list" where
  "set_image_settings s quality =
    (if 0 < quality \<and> quality \<le> 100
     then (s\<lparr>self_image_quality := quality\<rparr>, [])
     else (s, log_error s (''Invalid image quality: '' @ str_int quality
                 @ ''. Expected value betwenn 1-100'')))"

text \<open>
  \<open>set_camera\<close>: the guard is \<open>camera and camera not in cmds.listCameras()\<close>, so
  \<open>None\<close> and the empty string pass it without a look at the camera list.
\<close>

definition set_camera ::
  "bplayblast \<Rightarrow> string list \<Rightarrow> string option \<Rightarrow> bplayblast \<times> log_entry list" where
  "set_camera s listCameras camera =
    (case camera of
       None \<Rightarrow> (s\<lparr>self_camera := None\<rparr>, [])
     | Some c \<Rightarrow>
         if truthy c \<and> c \<notin> set listCameras
         then (s\<lparr>self_camera := None\<rparr>, log_error s (''Camera does not exist: '' @ c))
         else (s\<lparr>self_camera := Some c\<rparr>, []))"

section \<open>Visibility presets\<close>

definition preset_to_visibility ::
  "bplayblast \<Rightarrow> string \<Rightarrow> bool list option \<times> log_entry list" where
  "preset_to_visibility s visibility_preset =
    (case map_of VIEWPORT_VISIBILITY_PRESETS visibility_preset of
       None \<Rightarrow> (None, log_error s (''Invalid visibility preset: '' @ visibility_preset))
     | Some preset_names \<Rightarrow>
         (Some (if preset_names \<noteq> []
                then map (\<lambda>lookup_item. fst lookup_item \<in> set preset_names)
                       VIEWPORT_VISIBILITY_LOOKUP
                else []), []))"

section \<open>Frame rate and audio offset\<close>

text \<open>
  \<open>get_frame_rate\<close> reads the host's time unit \<open>rate_str\<close>. Python's built-in
  \<open>float()\<close> is taken as the parameter \<open>py_float\<close>: \<open>None\<close> is its \<open>ValueError\<close>.
  Floats are modelled by the reals they denote.
\<close>

definition get_frame_rate :: "(string \<Rightarrow> real option) \<Rightarrow> string \<Rightarrow> pyexc + real" where
  "get_frame_rate py_float rate_str =
    (if rate_str = ''game'' then Inr 15
     else if rate_str = ''film'' then Inr 24
     else if rate_str = ''pal'' then Inr 25
     else if rate_str = ''ntsc'' then Inr 30
     else if rate_str = ''show'' then Inr 48
     else if rate_str = ''palf'' then Inr 50
     else if rate_str = ''ntscf'' then Inr 60
     else if endswith rate_str ''fps''
     then (case py_float (take (length rate_str - 3) rate_str) of
             None \<Rightarrow> Inl ValueError
           | Some frame_rate \<Rightarrow> Inr frame_rate)
     else Inl RuntimeError)"

text \<open>Python's true division raises on a zero divisor.\<close>

definition get_audio_offset_in_sec :: "real \<Rightarrow> real \<Rightarrow> real \<Rightarrow> pyexc + real" where
  "get_audio_offset_in_sec start_frame audio_frame_offset frame_rate =
    (if frame_rate = 0 then Inl ZeroDivisionError
     else Inr ((start_frame - audio_frame_offset) / frame_rate))"

section \<open>The host application and the operating system\<close>

text \<open>
  The host (Maya and the file system) is an explicit state. Its queries are total
  functions of that state; the commands the controller issues update it.
  \<^item> \<open>fs\<close>: what exists at a path (\<open>os.path.exists\<close>, \<open>os.path.isdir\<close>,
    \<open>QFileInfo.exists\<close>);
  \<^item> \<open>focus_panel\<close>: \<open>cmds.getPanel(withFocus=True)\<close>;
  \<^item> \<open>panel_camera\<close>: the model panels and the camera each one looks through; asking
    \<open>cmds.modelPanel\<close> about any other panel raises;
  \<^item> \<open>editor_flags\<close>: per model editor, the value of each visibility flag. The host
    names the editor of a model panel after the panel, which \<open>get_viewport_visibility\<close>
    relies on when it hands the panel name to \<open>cmds.modelEditor\<close>;
  \<^item> \<open>launched\<close>: the viewer programs started so far, with the file each was given.
\<close>

datatype ftype = File | Dir

type_synonym filesystem = "string \<Rightarrow> ftype option"

record host =
  fs :: filesystem
  focus_panel :: string
  panel_camera :: "string \<Rightarrow> string option"
  editor_flags :: "string \<Rightarrow> string \<Rightarrow> bool"
  listCameras :: "string list"
  defaultResolution_width :: int
  defaultResolution_height :: int
  renderGlobals_startFrame :: real
  renderGlobals_endFrame :: real
  playback_minTime :: real
  playback_maxTime :: real
  playback_animationStartTime :: real
  playback_animationEndTime :: real
  currentUnit_time :: string
  timeControl_sound :: string
  sound_filename :: "string \<Rightarrow> string"
  sound_offset :: "string \<Rightarrow> real"
  workspace_rootDirectory :: string
  file_sceneName :: string
  optionVar :: "string \<Rightarrow> string option"
  launched :: "(string \<times> string) list"

text \<open>The keyword arguments of \<open>cmds.playblast\<close>.\<close>

record playblast_options =
  opt_filename :: string
  opt_widthHeight :: "int \<times> int"
  opt_percent :: int
  opt_startTime :: real
  opt_endTime :: real
  opt_clearCache :: bool
  opt_forceOverwrite :: bool
  opt_format :: string
  opt_compression :: string
  opt_quality :: int
  opt_indexFromZero :: bool
  opt_framePadding :: int
  opt_showOrnaments :: bool
  opt_viewer :: bool

text \<open>
  What the controller calls and this repository does not define is a parameter:
  \<^item> \<open>py_float\<close>, \<open>py_str_float\<close>: Python's \<open>float()\<close> (\<open>None\<close> is its
    \<open>ValueError\<close>) and the text an f-string prints for a float;
  \<^item> \<open>os_path_normpath\<close>, \<open>os_path_join\<close>, \<open>os_path_splitext\<close> (the root component);
  \<^item> \<open>repr_options\<close>: the text an f-string prints for the options dictionary;
  \<^item> \<open>cmds_playblast\<close>: the capture primitive; it reports whether it raised and leaves
    a host state behind either way;
  \<^item> \<open>ffmpeg_process\<close>: the external encoder started with a command line: \<open>None\<close> when
    \<open>waitForStarted\<close> fails, else the chunks it wrote to its error stream and the file
    system it leaves when it has stopped;
  \<^item> \<open>qdir_entryList\<close>, \<open>qdir_remove\<close>, \<open>qdir_rmdir\<close>: the \<open>QDir\<close> operations of
    \<open>remove_temp_dir\<close> (the \<open>*.png\<close> files of a directory, removing one of them,
    removing the directory).
\<close>

record env =
  py_float :: "string \<Rightarrow> real option"
  py_str_float :: "real \<Rightarrow> string"
  os_path_normpath :: "string \<Rightarrow> string"
  os_path_join :: "string \<Rightarrow> string \<Rightarrow> string"
  os_path_splitext :: "string \<Rightarrow> string"
  repr_options :: "playblast_options \<Rightarrow> string"
  cmds_playblast :: "playblast_options \<Rightarrow> host \<Rightarrow> bool \<times> host"
  ffmpeg_process :: "string \<Rightarrow> filesystem \<Rightarrow> (string list \<times> filesystem) option"
  qdir_entryList :: "string \<Rightarrow> filesystem \<Rightarrow> string list"
  qdir_remove :: "string \<Rightarrow> string \<Rightarrow> filesystem \<Rightarrow> filesystem"
  qdir_rmdir :: "string \<Rightarrow> filesystem \<Rightarrow> bool \<times> filesystem"

text \<open>\<open>sub in s\<close> and \<open>s.replace(old, new)\<close> on Python strings.\<close>

fun str_contains :: "string \<Rightarrow> string \<Rightarrow> bool" where
  "str_contains sub [] = (sub = [])"
| "str_contains sub (c # cs) = (take (length sub) (c # cs) = sub \<or> str_contains sub cs)"

function str_replace :: "string \<Rightarrow> string \<Rightarrow> string \<Rightarrow> string" where
  "str_replace old new [] = []"
| "str_replace old new (c # cs) =
    (if old \<noteq> [] \<and> take (length old) (c # cs) = old
     then new @ str_replace old new (drop (length old) (c # cs))
     else c # str_replace old new cs)"
  by pat_completeness auto
termination
  by (relation "measure (\<lambda>(old, new, s). length s)") auto

text \<open>Python's \<open>int()\<close> of a float truncates towards zero.\<close>

definition py_int :: "real \<Rightarrow> int" where
  "py_int r = (if 0 \<le> r then \<lfloor>r\<rfloor> else \<lceil>r\<rceil>)"

section \<open>Resolution and frame range\<close>

definition preset_to_resolution :: "host \<Rightarrow> string \<Rightarrow> pyexc + (int \<times> int) option" where
  "preset_to_resolution h resolution_preset =
    (if resolution_preset = ''Render''
     then Inr (Some (defaultResolution_width h, defaultResolution_height h))
     else case map_of RESOLUTION_LOOKUP resolution_preset of
            Some v \<Rightarrow> Inr v
          | None \<Rightarrow> Inl RuntimeError)"

text \<open>
  The table entry for \<open>''Render''\<close> is the empty tuple, here \<open>None\<close>; no other entry is,
  and \<open>preset_to_resolution\<close> never returns that entry. A caller that got the empty
  tuple would fail on its first subscript with \<open>IndexError\<close>.
\<close>

definition get_resolution_width_height :: "bplayblast \<Rightarrow> host \<Rightarrow> pyexc + (int \<times> int)" where
  "get_resolution_width_height s h =
    (case self_resolution_preset s of
       Some p \<Rightarrow>
         if truthy p
         then (case preset_to_resolution h p of
                 Inl e \<Rightarrow> Inl e
               | Inr None \<Rightarrow> Inl IndexError
               | Inr (Some wh) \<Rightarrow> Inr wh)
         else (case self_width_height s of None \<Rightarrow> Inl AttributeError | Some wh \<Rightarrow> Inr wh)
     | None \<Rightarrow> (case self_width_height s of None \<Rightarrow> Inl AttributeError | Some wh \<Rightarrow> Inr wh))"

text \<open>
  The argument of \<open>set_resolution\<close>: a string, a tuple or a list of two ints, or
  anything else (with the text an f-string prints for it).
\<close>

datatype resolution_arg =
  ResName string | ResTuple int int | ResList int int | ResOther string

definition str_resolution :: "resolution_arg \<Rightarrow> string" where
  "str_resolution r =
    (case r of
       ResName n \<Rightarrow> n
     | ResTuple w ht \<Rightarrow> ''('' @ str_int w @ '', '' @ str_int ht @ '')''
     | ResList w ht \<Rightarrow> ''['' @ str_int w @ '', '' @ str_int ht @ '']''
     | ResOther t \<Rightarrow> t)"

definition set_resolution ::
  "bplayblast \<Rightarrow> host \<Rightarrow> resolution_arg \<Rightarrow> bplayblast \<times> log_entry list" where
  "set_resolution s h resolution =
    (let s0 = s\<lparr>self_resolution_preset := None\<rparr>;
         looked = (case resolution of
                     ResName n \<Rightarrow>
                       (case preset_to_resolution h n of
                          Inr (Some (w, ht)) \<Rightarrow> Some (ResTuple w ht)
                        | Inr None \<Rightarrow> Some (ResOther ''()'')
                        | Inl e \<Rightarrow> None)
                   | _ \<Rightarrow> None);
         s1 = (case (resolution, looked) of
                 (ResName n, Some v) \<Rightarrow> s0\<lparr>self_resolution_preset := Some n\<rparr>
               | _ \<Rightarrow> s0);
         width_height = (case looked of Some v \<Rightarrow> v | None \<Rightarrow> resolution)
     in case width_height of
          ResTuple w ht \<Rightarrow>
            if w \<le> 0 \<or> ht \<le> 0
            then (s1, log_error s (''Invalid resolution: '' @ str_resolution width_height
                        @ ''. Values must be greater than zero.''))
            else (s1\<lparr>self_width_height := Some (w, ht)\<rparr>, [])
        | ResList w ht \<Rightarrow>
            if w \<le> 0 \<or> ht \<le> 0
            then (s1, log_error s (''Invalid resolution: '' @ str_resolution width_height
                        @ ''. Values must be greater than zero.''))
            else (s1\<lparr>self_width_height := Some (w, ht)\<rparr>, [])
        | _ \<Rightarrow>
            (s1, log_error s (''Invalid resolution: '' @ str_resolution width_height
                    @ ''. Expected one of [int, int], ''
                    @ join_strs '', '' (map quoted (map fst RESOLUTION_LOOKUP)))))"

definition preset_to_frame_range :: "host \<Rightarrow> string \<Rightarrow> pyexc + (real \<times> real)" where
  "preset_to_frame_range h frame_range_preset =
    (if frame_range_preset = ''Render''
     then Inr (renderGlobals_startFrame h, renderGlobals_endFrame h)
     else if frame_range_preset = ''Playback''
     then Inr (of_int (py_int (playback_minTime h)), of_int (py_int (playback_maxTime h)))
     else if frame_range_preset = ''Animation''
     then Inr (of_int (py_int (playback_animationStartTime h)),
               of_int (py_int (playback_animationEndTime h)))
     else Inl RuntimeError)"

definition get_start_end_frame :: "bplayblast \<Rightarrow> host \<Rightarrow> pyexc + (real \<times> real)" where
  "get_start_end_frame s h =
    (case self_frame_range_preset s of
       Some p \<Rightarrow>
         if truthy p then preset_to_frame_range h p
         else Inr (self_start_frame s, self_end_frame s)
     | None \<Rightarrow> Inr (self_start_frame s, self_end_frame s))"

section \<open>Viewport queries and commands\<close>

definition get_viewport_panel :: "bplayblast \<Rightarrow> host \<Rightarrow> string option \<times> log_entry list" where
  "get_viewport_panel s h =
    (let model_panel = focus_panel h
     in if panel_camera h model_panel \<noteq> None
        then (Some model_panel, [])
        else (None, log_error s ''Failed to get active view''))"

definition panel_truthy :: "string option \<Rightarrow> bool" where
  "panel_truthy p = (case p of None \<Rightarrow> False | Some n \<Rightarrow> truthy n)"

text \<open>\<open>lookThroughModelPanel camera panel\<close>, evaluated by the host.\<close>

definition lookThroughModelPanel :: "string \<Rightarrow> string \<Rightarrow> host \<Rightarrow> host" where
  "lookThroughModelPanel camera_name model_panel h =
    h\<lparr>panel_camera := (panel_camera h)(model_panel := Some camera_name)\<rparr>"

text \<open>The text an f-string prints for a name that may be \<open>None\<close>.\<close>

definition str_opt :: "string option \<Rightarrow> string" where
  "str_opt c = (case c of None \<Rightarrow> ''None'' | Some n \<Rightarrow> n)"

definition set_active_camera ::
  "bplayblast \<Rightarrow> host \<Rightarrow> string option \<Rightarrow> host \<times> log_entry list" where
  "set_active_camera s h camera_name =
    (case get_viewport_panel s h of
       (model_panel, lg) \<Rightarrow>
         if panel_truthy model_panel
         then (lookThroughModelPanel (str_opt camera_name) (the model_panel) h, lg)
         else (h, lg @ log_error s ''Failed to set active camera. A viewport is not active.''))"

definition get_active_camera :: "bplayblast \<Rightarrow> host \<Rightarrow> string option \<times> log_entry list" where
  "get_active_camera s h =
    (case get_viewport_panel s h of
       (model_panel, lg) \<Rightarrow>
         if \<not> panel_truthy model_panel
         then (None, lg @ log_error s ''Failed to get active camera. A viewport is not active.'')
         else (panel_camera h (the model_panel), lg))"

definition get_viewport_visibility ::
  "bplayblast \<Rightarrow> host \<Rightarrow> bool list option \<times> log_entry list" where
  "get_viewport_visibility s h =
    (case get_viewport_panel s h of
       (model_panel, lg) \<Rightarrow>
         if \<not> panel_truthy model_panel
         then (None, lg @ log_error s ''Failed to get viewport visibility. A viewport is not active'')
         else (Some (map (\<lambda>item. editor_flags h (the model_panel) (snd item))
                       VIEWPORT_VISIBILITY_LOOKUP), lg))"

text \<open>\<open>cmds.modelEditor(model_editor, e=True, **visibility_flags)\<close>.\<close>

definition set_viewport_visibility :: "host \<Rightarrow> string \<Rightarrow> (string \<rightharpoonup> bool) \<Rightarrow> host" where
  "set_viewport_visibility h model_editor visibility_flags =
    h\<lparr>editor_flags := (editor_flags h)
         (model_editor := (\<lambda>flag. case visibility_flags flag of
                                    Some v \<Rightarrow> v
                                  | None \<Rightarrow> editor_flags h model_editor flag))\<rparr>"

text \<open>
  The loop of \<open>create_viewport_visibility_flags\<close>: one dictionary entry per catalog
  item, read at a running index; a list that is too short raises \<open>IndexError\<close>, and
  \<open>None\<close> (no viewport) cannot be subscripted.
\<close>

fun visibility_flags_loop ::
  "(string \<times> string) list \<Rightarrow> bool list \<Rightarrow> nat \<Rightarrow> (string \<rightharpoonup> bool) \<Rightarrow> pyexc + (string \<rightharpoonup> bool)" where
  "visibility_flags_loop [] visibility_data data_index visibility_flags = Inr visibility_flags"
| "visibility_flags_loop (item # items) visibility_data data_index visibility_flags =
    (if data_index < length visibility_data
     then visibility_flags_loop items visibility_data (Suc data_index)
            (visibility_flags(snd item \<mapsto> visibility_data ! data_index))
     else Inl IndexError)"

definition create_viewport_visibility_flags :: "bool list option \<Rightarrow> pyexc + (string \<rightharpoonup> bool)" where
  "create_viewport_visibility_flags visibility_data =
    (case visibility_data of
       None \<Rightarrow> Inl TypeError
     | Some d \<Rightarrow> visibility_flags_loop VIEWPORT_VISIBILITY_LOOKUP d 0 Map.empty)"

definition get_visibility :: "bplayblast \<Rightarrow> host \<Rightarrow> bool list option \<times> log_entry list" where
  "get_visibility s h =
    (if self_visibility s = [] then get_viewport_visibility s h
     else (Some (self_visibility s), []))"

section \<open>Paths and names\<close>

definition validate_ffmpeg :: "bplayblast \<Rightarrow> host \<Rightarrow> bool \<times> log_entry list" where
  "validate_ffmpeg s h =
    (if \<not> truthy (self_ffmpeg_path s)
     then (False, log_error s ''ffmpeg executable path not set'')
     else if fs h (self_ffmpeg_path s) = None
     then (False, log_error s (''ffmpeg executable path does not exists: '' @ self_ffmpeg_path s))
     else if fs h (self_ffmpeg_path s) = Some Dir
     then (False, log_error s (''Invalid ffmpeg path: '' @ self_ffmpeg_path s))
     else (True, []))"

definition requires_ffmpeg :: "bplayblast \<Rightarrow> bool" where
  "requires_ffmpeg s = (self_container_format s \<noteq> ''Image'')"

definition get_scene_name :: "env \<Rightarrow> host \<Rightarrow> string" where
  "get_scene_name x h =
    (if truthy (file_sceneName h) then os_path_splitext x (file_sceneName h) else ''untitled'')"

definition get_project_dir_path :: "host \<Rightarrow> string" where
  "get_project_dir_path h = workspace_rootDirectory h"

definition resolve_output_directory_path :: "host \<Rightarrow> string \<Rightarrow> string" where
  "resolve_output_directory_path h dir_path =
    (if str_contains ''{project}'' dir_path
     then str_replace ''{project}'' (get_project_dir_path h) dir_path
     else dir_path)"

definition resolve_output_filename :: "env \<Rightarrow> host \<Rightarrow> string \<Rightarrow> string" where
  "resolve_output_filename x h filename =
    (if str_contains ''{scene}'' filename
     then str_replace ''{scene}'' (get_scene_name x h) filename
     else filename)"

section \<open>Encoding\<close>

text \<open>
  \<open>get_audio_attributes\<close> has a \<open>return\<close> for a sound node whose file exists and one
  for no sound node; for a sound node whose file is missing the method falls off its
  end and returns \<open>None\<close> (the outer \<open>None\<close> here).
\<close>

definition get_audio_attributes :: "host \<Rightarrow> (string \<times> real) option option" where
  "get_audio_attributes h =
    (let sound_node = timeControl_sound h
     in if truthy sound_node
        then (let file_path = sound_filename h sound_node
              in if fs h file_path \<noteq> None
                 then Some (Some (file_path, sound_offset h sound_node))
                 else None)
        else Some None)"

definition dquote :: string where
  "dquote = [CHR 0x22]"

text \<open>
  Lines 202 to 222 of \<open>encode_h264\<close>: the command line, or the exception raised on the
  way. Unpacking \<open>None\<close> into two names is a \<open>TypeError\<close>. With an audio file, the
  statement after the codec options adds to the name \<open>ffmpeg\<close>, which is bound nowhere
  in the module (the command is in \<open>ffmpeg_cmd\<close>): evaluating it is a \<open>NameError\<close>.
\<close>

definition encode_h264_cmd ::
  "env \<Rightarrow> bplayblast \<Rightarrow> host \<Rightarrow> string \<Rightarrow> string \<Rightarrow> real \<Rightarrow> pyexc + string" where
  "encode_h264_cmd x s h source_path output_path start_frame =
    (case get_frame_rate (py_float x) (currentUnit_time h) of
       Inl e \<Rightarrow> Inl e
     | Inr frame_rate \<Rightarrow>
     (case get_audio_attributes h of
        None \<Rightarrow> Inl TypeError
      | Some audio \<Rightarrow>
      (let audio_file = (case audio of
                           Some (audio_file_path, audio_frame_offset) \<Rightarrow>
                             if truthy audio_file_path
                             then Some (audio_file_path, audio_frame_offset) else None
                         | None \<Rightarrow> None)
       in case (case audio_file of
                  Some (audio_file_path, audio_frame_offset) \<Rightarrow>
                    (case get_audio_offset_in_sec start_frame audio_frame_offset frame_rate of
                       Inl e \<Rightarrow> Inl e
                     | Inr audio_offset \<Rightarrow> Inr (Some (audio_file_path, audio_offset)))
                | None \<Rightarrow> Inr None) of
            Inl e \<Rightarrow> Inl e
          | Inr audio_in \<Rightarrow>
          (case map_of H264_QUALITIES (self_h264_quality s) of
             None \<Rightarrow> Inl KeyError
           | Some crf \<Rightarrow>
           (let preset = self_h264_preset s;
                ffmpeg_cmd0 = self_ffmpeg_path s
                  @ '' -y -framerate '' @ py_str_float x frame_rate
                  @ '' -i '' @ dquote @ source_path @ dquote;
                ffmpeg_cmd1 = (case audio_in of
                                 Some (audio_file_path, audio_offset) \<Rightarrow>
                                   ffmpeg_cmd0 @ '' -ss '' @ py_str_float x audio_offset
                                     @ '' -i '' @ dquote @ audio_file_path @ dquote
                               | None \<Rightarrow> ffmpeg_cmd0);
                ffmpeg_cmd2 = ffmpeg_cmd1
                  @ '' -c:v libx264 -crf:v '' @ str_nat crf
                  @ '' -preset:v '' @ preset
                  @ '' -profile high -level 4.0 -pix_fmt yuv420p''
            in case audio_in of
                 Some a \<Rightarrow> Inl NameError
               | None \<Rightarrow> Inr (ffmpeg_cmd2 @ '' '' @ dquote @ output_path @ dquote))))))"

text \<open>
  \<open>execute_ffmpeg_cmd\<close> starts the process and waits until it has stopped; each chunk
  of its error stream is logged by \<open>process_ffmpeg_output\<close>.
\<close>

definition execute_ffmpeg_cmd ::
  "env \<Rightarrow> bplayblast \<Rightarrow> host \<Rightarrow> string \<Rightarrow> host \<times> log_entry list" where
  "execute_ffmpeg_cmd x s h command =
    (case ffmpeg_process x command (fs h) of
       None \<Rightarrow> (h, [])
     | Some (chunks, fs') \<Rightarrow> (h\<lparr>fs := fs'\<rparr>, concat (map (log_output s) chunks)))"

type_synonym result = "(pyexc + unit) \<times> host \<times> log_entry list"

definition encode_h264 ::
  "env \<Rightarrow> bplayblast \<Rightarrow> host \<Rightarrow> string \<Rightarrow> string \<Rightarrow> real \<Rightarrow> result" where
  "encode_h264 x s h source_path output_path start_frame =
    (case encode_h264_cmd x s h source_path output_path start_frame of
       Inl e \<Rightarrow> (Inl e, h, [])
     | Inr ffmpeg_cmd \<Rightarrow>
         (case execute_ffmpeg_cmd x s h ffmpeg_cmd of
            (h', lg) \<Rightarrow> (Inr (), h', log_output s ffmpeg_cmd @ lg)))"

definition remove_temp_dir ::
  "env \<Rightarrow> bplayblast \<Rightarrow> host \<Rightarrow> string \<Rightarrow> host \<times> log_entry list" where
  "remove_temp_dir x s h temp_dir_path =
    (let fs1 = fold (\<lambda>file. qdir_remove x temp_dir_path file)
                 (qdir_entryList x temp_dir_path (fs h)) (fs h)
     in case qdir_rmdir x temp_dir_path fs1 of
          (removed, fs2) \<Rightarrow>
            (h\<lparr>fs := fs2\<rparr>,
             if \<not> removed
             then log_warning s (''Failed to remove temporary directory: '' @ temp_dir_path)
             else []))"

definition open_in_viewer :: "bplayblast \<Rightarrow> host \<Rightarrow> string \<Rightarrow> host \<times> log_entry list" where
  "open_in_viewer s h path =
    (if fs h path = None
     then (h, log_error s (''Failed to open in viewer. File does not exists : '' @ path))
     else if self_container_format s \<in> {''mov'', ''mp4''}
             \<and> optionVar h ''PlayblastCmdQuicktime'' \<noteq> None
             \<and> truthy (the (optionVar h ''PlayblastCmdQuicktime''))
     then (h\<lparr>launched := launched h @ [(the (optionVar h ''PlayblastCmdQuicktime''), path)]\<rparr>, [])
     else (h\<lparr>launched := launched h @ [(''QDesktopServices.openUrl'', path)]\<rparr>, []))"

section \<open>The capture pipeline\<close>

text \<open>
  \<open>execute\<close> is embedded as its four blocks, in the order of the source:
  \<^item> \<open>execute_preflight\<close>, lines 545 to 609: the checks, the target paths and the options;
  \<^item> \<open>execute_viewport\<close>, lines 611 to 625: the original camera, the capture camera and
    the two dictionaries of visibility flags;
  \<^item> \<open>execute_capture\<close>, lines 627 to 640: the capture primitive between applying the
    capture flags and restoring camera and flags;
  \<^item> \<open>execute_encode\<close>, lines 645 to 658: encoding, cleanup and the viewer.

  A block that ends the call (a \<open>return\<close> or an exception) yields \<open>Inl\<close> of the call's
  result; otherwise \<open>Inr\<close> of what the next block needs.
\<close>

record prepared =
  pd_panel :: string
  pd_output_dir :: string
  pd_filename :: string
  pd_padding :: int
  pd_output_path :: string
  pd_playblast_output_dir :: string
  pd_options :: playblast_options
  pd_start_frame :: real
  pd_log :: "log_entry list"

text \<open>
  In image mode the names \<open>output_path\<close> and \<open>playblast_output_dir\<close> are never bound
  and never read; the record holds the empty string for them.
\<close>

definition execute_preflight ::
  "env \<Rightarrow> bplayblast \<Rightarrow> host \<Rightarrow> string \<Rightarrow> string \<Rightarrow> int \<Rightarrow> bool \<Rightarrow> bool \<Rightarrow> bool
     \<Rightarrow> result + prepared" where
  "execute_preflight x s h output_dir filename padding show_ornaments show_in_viewer overwrite =
    (if requires_ffmpeg s \<and> \<not> fst (validate_ffmpeg s h)
     then Inl (Inr (), h, snd (validate_ffmpeg s h)
                 @ log_error s ''ffmpeg executable is not configured. See script editor for details.'')
     else case get_viewport_panel s h of (viewport_model_panel, lg_panel) \<Rightarrow>
     if \<not> panel_truthy viewport_model_panel
     then Inl (Inr (), h, lg_panel
                 @ log_error s ''An active viewport is not selected. Select the viewport and retry'')
     else if \<not> truthy output_dir
     then Inl (Inr (), h, lg_panel @ log_error s ''Output directory path not set'')
     else if \<not> truthy filename
     then Inl (Inr (), h, lg_panel @ log_error s ''Output file name not set'')
     else
     (let output_dir = resolve_output_directory_path h output_dir;
          filename = resolve_output_filename x h filename;
          padding = (if padding \<le> 0 then DEFAULT_PADDING else padding);
          output_path = os_path_normpath x
            (os_path_join x output_dir (filename @ ''.'' @ self_container_format s));
          playblast_output_dir = output_dir @ ''/playblast_temp''
      in if requires_ffmpeg s \<and> \<not> overwrite \<and> fs h output_path \<noteq> None
         then Inl (Inr (), h, lg_panel
                     @ log_error s ''Output file already exists. Enable overwrite to ignore.'')
         else
         (case get_resolution_width_height s h of
            Inl e \<Rightarrow> Inl (Inl e, h, lg_panel)
          | Inr width_height \<Rightarrow>
          (case get_start_end_frame s h of
             Inl e \<Rightarrow> Inl (Inl e, h, lg_panel)
           | Inr (start_frame, end_frame) \<Rightarrow>
           (let options =
                  (if requires_ffmpeg s
                   then \<lparr>opt_filename = os_path_normpath x
                                          (os_path_join x playblast_output_dir filename),
                         opt_widthHeight = width_height, opt_percent = 100,
                         opt_startTime = start_frame, opt_endTime = end_frame,
                         opt_clearCache = True, opt_forceOverwrite = True,
                         opt_format = ''image'', opt_compression = ''png'',
                         opt_quality = 100, opt_indexFromZero = True,
                         opt_framePadding = padding, opt_showOrnaments = show_ornaments,
                         opt_viewer = False\<rparr>
                   else \<lparr>opt_filename = os_path_normpath x (os_path_join x output_dir filename),
                         opt_widthHeight = width_height, opt_percent = 100,
                         opt_startTime = start_frame, opt_endTime = end_frame,
                         opt_clearCache = True, opt_forceOverwrite = overwrite,
                         opt_format = ''image'', opt_compression = self_encoder s,
                         opt_quality = self_image_quality s, opt_indexFromZero = False,
                         opt_framePadding = padding, opt_showOrnaments = show_ornaments,
                         opt_viewer = show_in_viewer\<rparr>)
            in Inr \<lparr>pd_panel = the viewport_model_panel,
                    pd_output_dir = output_dir,
                    pd_filename = filename,
                    pd_padding = padding,
                    pd_output_path = (if requires_ffmpeg s then output_path else []),
                    pd_playblast_output_dir =
                      (if requires_ffmpeg s then playblast_output_dir else []),
                    pd_options = options,
                    pd_start_frame = start_frame,
                    pd_log = lg_panel
                      @ log_output s (''Playblast options: '' @ repr_options x options)\<rparr>)))))"

record transaction =
  tx_host :: host
  tx_orig_camera :: "string option"
  tx_orig_visibility_flags :: "string \<rightharpoonup> bool"
  tx_playblast_visibility_flags :: "string \<rightharpoonup> bool"
  tx_log :: "log_entry list"

definition execute_viewport :: "bplayblast \<Rightarrow> host \<Rightarrow> log_entry list \<Rightarrow> result + transaction" where
  "execute_viewport s h lg0 =
    (case get_active_camera s h of (orig_camera, lg1) \<Rightarrow>
     (let camera = (case self_camera s of
                      None \<Rightarrow> orig_camera
                    | Some c \<Rightarrow> if truthy c then Some c else orig_camera)
      in if \<not> (case camera of None \<Rightarrow> False | Some c \<Rightarrow> c \<in> set (listCameras h))
         then Inl (Inr (), h, lg0 @ lg1
                     @ log_error s (''Camera does not exists: '' @ str_opt camera))
         else
         (case set_active_camera s h camera of (h1, lg2) \<Rightarrow>
          (case get_viewport_visibility s h1 of (orig_visibility, lg3) \<Rightarrow>
           (case create_viewport_visibility_flags orig_visibility of
              Inl e \<Rightarrow> Inl (Inl e, h1, lg0 @ lg1 @ lg2 @ lg3)
            | Inr orig_visibility_flags \<Rightarrow>
            (case get_visibility s h1 of (playblast_visibility, lg4) \<Rightarrow>
             (case create_viewport_visibility_flags playblast_visibility of
                Inl e \<Rightarrow> Inl (Inl e, h1, lg0 @ lg1 @ lg2 @ lg3 @ lg4)
              | Inr playblast_visibility_flags \<Rightarrow>
                  Inr \<lparr>tx_host = h1,
                       tx_orig_camera = orig_camera,
                       tx_orig_visibility_flags = orig_visibility_flags,
                       tx_playblast_visibility_flags = playblast_visibility_flags,
                       tx_log = lg0 @ lg1 @ lg2 @ lg3 @ lg4\<rparr>)))))))"

text \<open>
  Asking \<open>cmds.modelPanel\<close> for the editor of a panel that is not a model panel raises;
  it is the test \<open>get_viewport_panel\<close> wraps. The \<open>try\<close> statement catches whatever
  \<open>cmds.playblast\<close> raises, and its \<open>finally\<close> clause runs on both ways out.
  The result carries \<open>playblast_failed\<close>.
\<close>

definition modelPanel_modelEditor :: "host \<Rightarrow> string \<Rightarrow> pyexc + string" where
  "modelPanel_modelEditor h model_panel =
    (if panel_camera h model_panel \<noteq> None then Inr model_panel else Inl RuntimeError)"

definition execute_capture ::
  "env \<Rightarrow> bplayblast \<Rightarrow> prepared \<Rightarrow> transaction \<Rightarrow> (pyexc + bool) \<times> host \<times> log_entry list" where
  "execute_capture x s pd tx =
    (case modelPanel_modelEditor (tx_host tx) (pd_panel pd) of
       Inl e \<Rightarrow> (Inl e, tx_host tx, tx_log tx)
     | Inr model_editor \<Rightarrow>
     (let h2 = set_viewport_visibility (tx_host tx) model_editor
                 (tx_playblast_visibility_flags tx)
      in case cmds_playblast x (pd_options pd) h2 of (raised, h3) \<Rightarrow>
         (let lg_failed = (if raised
                           then log_error s ''Failed to created playblast. See script editor for details''
                           else [])
          in case set_active_camera s h3 (tx_orig_camera tx) of (h4, lg_restore) \<Rightarrow>
             (let h5 = set_viewport_visibility h4 model_editor (tx_orig_visibility_flags tx)
              in (Inr raised, h5, tx_log tx @ lg_failed @ lg_restore)))))"

definition execute_encode ::
  "env \<Rightarrow> bplayblast \<Rightarrow> prepared \<Rightarrow> bool \<Rightarrow> host \<Rightarrow> log_entry list \<Rightarrow> result" where
  "execute_encode x s pd show_in_viewer h lg =
    (if requires_ffmpeg s
     then (let source_path = pd_playblast_output_dir pd @ ''/'' @ pd_filename pd
                               @ ''.%0'' @ str_int (pd_padding pd) @ ''d.png''
           in if self_encoder s = ''h264''
              then (case encode_h264 x s h source_path (pd_output_path pd) (pd_start_frame pd) of
                      (Inl e, h1, lg1) \<Rightarrow> (Inl e, h1, lg @ lg1)
                    | (Inr u, h1, lg1) \<Rightarrow>
                        (case remove_temp_dir x s h1 (pd_playblast_output_dir pd) of
                           (h2, lg2) \<Rightarrow>
                             if show_in_viewer
                             then (case open_in_viewer s h2 (pd_output_path pd) of
                                     (h3, lg3) \<Rightarrow> (Inr (), h3, lg @ lg1 @ lg2 @ lg3))
                             else (Inr (), h2, lg @ lg1 @ lg2)))
              else (case remove_temp_dir x s h (pd_playblast_output_dir pd) of
                      (h1, lg1) \<Rightarrow>
                        (Inr (), h1,
                         lg @ log_error s (''Encoding failed. Unsupported encoder (''
                              @ self_encoder s @ '') for container (''
                              @ self_container_format s @ '')'') @ lg1)))
     else (Inr (), h, lg))"

definition execute ::
  "env \<Rightarrow> bplayblast \<Rightarrow> host \<Rightarrow> string \<Rightarrow> string \<Rightarrow> int \<Rightarrow> bool \<Rightarrow> bool \<Rightarrow> bool \<Rightarrow> result" where
  "execute x s h output_dir filename padding show_ornaments show_in_viewer overwrite =
    (case execute_preflight x s h output_dir filename padding show_ornaments show_in_viewer
            overwrite of
       Inl r \<Rightarrow> r
     | Inr pd \<Rightarrow>
     (case execute_viewport s h (pd_log pd) of
        Inl r \<Rightarrow> r
      | Inr tx \<Rightarrow>
      (case execute_capture x s pd tx of
         (Inl e, h', lg) \<Rightarrow> (Inl e, h', lg)
       | (Inr playblast_failed, h', lg) \<Rightarrow>
           if playblast_failed then (Inr (), h', lg)
           else execute_encode x s pd show_in_viewer h' lg)))"

text \<open>The value that line 568 binds to \<open>output_path\<close>: the final encoded artifact.\<close>

definition final_artifact_path :: "env \<Rightarrow> bplayblast \<Rightarrow> host \<Rightarrow> string \<Rightarrow> string \<Rightarrow> string" where
  "final_artifact_path x s h output_dir filename =
    os_path_normpath x
      (os_path_join x (resolve_output_directory_path h output_dir)
         (resolve_output_filename x h filename @ ''.'' @ self_container_format s))"

text \<open>
  What the controller itself can observe of the viewport: the camera that
  \<open>get_active_camera\<close> returns and the flags that \<open>get_viewport_visibility\<close> returns.
\<close>

definition viewport_snapshot :: "bplayblast \<Rightarrow> host \<Rightarrow> string option \<times> bool list option" where
  "viewport_snapshot s h = (fst (get_active_camera s h), fst (get_viewport_visibility s h))"

section \<open>A sample session\<close>

text \<open>
  A controller as \<open>BPlayblast(''/usr/bin/ffmpeg'')\<close> leaves it, a host with one model
  panel in focus, and an environment with POSIX-style paths, a capture primitive that
  writes one frame and an encoder that writes nothing. \<open>py_str_float\<close> is exact on
  whole numbers.
\<close>

definition sample_controller :: bplayblast where
  "sample_controller =
    \<lparr>self_ffmpeg_path = ''/usr/bin/ffmpeg'',
     self_log_to_maya = True,
     self_camera = None,
     self_resolution_preset = Some ''Render'',
     self_width_height = Some (1920, 1080),
     self_frame_range_preset = Some ''Render'',
     self_start_frame = 1,
     self_end_frame = 24,
     self_container_format = ''mp4'',
     self_encoder = ''h264'',
     self_h264_quality = ''High'',
     self_h264_preset = ''fast'',
     self_image_quality = 100,
     self_visibility = []\<rparr>"

definition sample_host :: host where
  "sample_host =
    \<lparr>fs = (\<lambda>p. if p = ''/usr/bin/ffmpeg'' then Some File
               else if p = ''/proj/movies'' then Some Dir
               else if p = ''/proj/sound/take1.wav'' then Some File
               else None),
     focus_panel = ''modelPanel4'',
     panel_camera = (\<lambda>p. if p = ''modelPanel4'' then Some ''persp'' else None),
     editor_flags = (\<lambda>e flag. True),
     listCameras = [''persp'', ''top'', ''shotCam''],
     defaultResolution_width = 1920,
     defaultResolution_height = 1080,
     renderGlobals_startFrame = 1,
     renderGlobals_endFrame = 24,
     playback_minTime = 1,
     playback_maxTime = 24,
     playback_animationStartTime = 1,
     playback_animationEndTime = 48,
     currentUnit_time = ''film'',
     timeControl_sound = [],
     sound_filename = (\<lambda>n. ''/proj/sound/'' @ n @ ''.wav''),
     sound_offset = (\<lambda>n. 5),
     workspace_rootDirectory = ''/proj'',
     file_sceneName = ''shot.ma'',
     optionVar = (\<lambda>v. None),
     launched = []\<rparr>"

definition sample_env :: env where
  "sample_env =
    \<lparr>py_float = (\<lambda>t. if t = ''29.97'' then Some (2997 / 100) else None),
     py_str_float = (\<lambda>r. str_int \<lfloor>r\<rfloor> @ ''.0''),
     os_path_normpath = (\<lambda>p. p),
     os_path_join = (\<lambda>a b. a @ ''/'' @ b),
     os_path_splitext = (\<lambda>n. takeWhile (\<lambda>c. c \<noteq> CHR ''.'') n),
     repr_options = (\<lambda>opts. ''{...}''),
     cmds_playblast =
       (\<lambda>opts h. (False, h\<lparr>fs := (fs h)(opt_filename opts @ ''.0000.png'' := Some File)\<rparr>)),
     ffmpeg_process = (\<lambda>command f. Some ([], f)),
     qdir_entryList = (\<lambda>d f. []),
     qdir_remove = (\<lambda>d n f. f(d @ ''/'' @ n := None)),
     qdir_rmdir = (\<lambda>d f. (True, f(d := None)))\<rparr>"

text \<open>
  A capture primitive that disturbs the viewport: it leaves another camera in the
  focused panel and every flag off, and raises or not as told.
\<close>

definition disturbing_playblast :: "bool \<Rightarrow> playblast_options \<Rightarrow> host \<Rightarrow> bool \<times> host" where
  "disturbing_playblast raised opts h =
    (raised, h\<lparr>panel_camera := (panel_camera h)(focus_panel h := Some ''top''),
               editor_flags := (\<lambda>e flag. False)\<rparr>)"

text \<open>Two host states with the same focus, cameras and visibility flags.\<close>

definition same_viewport :: "host \<Rightarrow> host \<Rightarrow> bool" where
  "same_viewport h h' =
    (focus_panel h' = focus_panel h \<and> panel_camera h' = panel_camera h
     \<and> editor_flags h' = editor_flags h)"

section \<open>Setters\<close>

text \<open>
  Claim C2 says that \<open>set_encoding\<close>, given an invalid pair, logs an error, does not
  raise and keeps the previously accepted pair. The code does not: for a known
  container with an encoder outside its list it logs the error and then stores the
  invalid pair; for an unknown container it logs the error and then raises
  \<open>KeyError\<close> from the table lookup.
\<close>

theorem set_encoding_invalid_pair:
  "set_encoding s ''mp4'' ''png'' =
     (Inr (s\<lparr>self_container_format := ''mp4'', self_encoder := ''png''\<rparr>),
      [Entry ERROR (''Invalid encoder: png. Expected one of '' @ repr_list [''h264''])
         (self_log_to_maya s)])
   \<and> set_encoding s ''avi'' ''h264'' =
     (Inl KeyError,
      [Entry ERROR (''Invalid container: avi. Expected one of ''
         @ repr_keys [''mov'', ''mp4'', ''Image'']) (self_log_to_maya s)])"
  by (simp add: set_encoding_def VIDEO_ENCODER_LOOKUP_def log_error_def)

text \<open>The sibling setter keeps its state when it rejects its arguments.\<close>

lemma set_h264_settings_rejects:
  "quality \<notin> set (map fst H264_QUALITIES) \<or> preset \<notin> set H264_PRESETS
   \<Longrightarrow> fst (set_h264_settings s quality preset) = s"
  by (auto simp add: set_h264_settings_def)

text \<open>
  Claim C10, as amended: for every non-empty camera name that is not in the host's
  camera list, \<open>set_camera\<close> logs an error and stores \<open>None\<close>, whatever camera was
  stored before; for a name in the list, for the empty string and for \<open>None\<close> it
  stores its argument and logs nothing.
\<close>

theorem set_camera_cases:
  "(c1 \<noteq> [] \<and> c1 \<notin> set cams \<longrightarrow>
      set_camera s cams (Some c1) =
        (s\<lparr>self_camera := None\<rparr>,
         [Entry ERROR (''Camera does not exist: '' @ c1) (self_log_to_maya s)]))
   \<and> (c2 \<in> set cams \<or> c2 = [] \<longrightarrow>
        set_camera s cams (Some c2) = (s\<lparr>self_camera := Some c2\<rparr>, []))
   \<and> set_camera s cams None = (s\<lparr>self_camera := None\<rparr>, [])"
  by (auto simp add: set_camera_def truthy_def log_error_def)

theorem set_camera_cases_witness:
  "''cam9'' \<noteq> [] \<and> ''cam9'' \<notin> set [''persp'', ''top'']
   \<and> set_camera (sample_controller\<lparr>self_camera := Some ''top''\<rparr>) [''persp'', ''top'']
        (Some ''cam9'') =
       (sample_controller\<lparr>self_camera := None\<rparr>,
        [Entry ERROR ''Camera does not exist: cam9'' True])
   \<and> ''persp'' \<in> set [''persp'', ''top'']
   \<and> set_camera (sample_controller\<lparr>self_camera := Some ''top''\<rparr>) [''persp'', ''top'']
        (Some ''persp'') =
       (sample_controller\<lparr>self_camera := Some ''persp''\<rparr>, [])"
  using set_camera_cases [of "''cam9''" "[''persp'', ''top'']"
      "sample_controller\<lparr>self_camera := Some ''top''\<rparr>" "''persp''"]
  by (simp add: sample_controller_def)

text \<open>
  Claim C10 as stated fails for the empty string: it is not in the camera list, yet
  no error is logged and the stored camera is the empty string, not \<open>None\<close>.
\<close>

theorem set_camera_empty_name:
  "[] \<notin> set [''persp'', ''top'']
   \<and> snd (set_camera sample_controller [''persp'', ''top''] (Some [])) = []
   \<and> self_camera (fst (set_camera sample_controller [''persp'', ''top''] (Some [])))
       = Some []
   \<and> self_camera (fst (set_camera sample_controller [''persp'', ''top''] (Some [])))
       \<noteq> None"
  by (simp add: set_camera_def truthy_def)

section \<open>Visibility preset\<close>

text \<open>
  Claim C5, as amended: the preset \<open>''Geo''\<close> resolves to a vector of 37 booleans, one
  per catalog entry and in catalog order, in which exactly the slots labelled
  \<open>''NURBS Surfaces''\<close> and \<open>''Polygons''\<close> are true.
\<close>

theorem preset_to_visibility_Geo:
  "preset_to_visibility s ''Geo'' =
     (Some [False, False, True, False, False, True, False, False, False, False,
            False, False, False, False, False, False, False, False, False, False,
            False, False, False, False, False, False, False, False, False, False,
            False, False, False, False, False, False, False], [])
   \<and> map_option length (fst (preset_to_visibility s ''Geo'')) = Some 37
   \<and> length VIEWPORT_VISIBILITY_LOOKUP = 37
   \<and> map_option (\<lambda>v. map fst (filter snd (zip (map fst VIEWPORT_VISIBILITY_LOOKUP) v)))
        (fst (preset_to_visibility s ''Geo'')) = Some [''NURBS Surfaces'', ''Polygons'']"
  by (simp add: preset_to_visibility_def VIEWPORT_VISIBILITY_PRESETS_def
        VIEWPORT_VISIBILITY_LOOKUP_def)

text \<open>Claim C5 as stated fails on the length: the vector has 37 entries, not 35.\<close>

theorem preset_to_visibility_Geo_not_35:
  "map_option length (fst (preset_to_visibility sample_controller ''Geo'')) = Some 37
   \<and> map_option length (fst (preset_to_visibility sample_controller ''Geo'')) \<noteq> Some 35"
  by (simp add: preset_to_visibility_def VIEWPORT_VISIBILITY_PRESETS_def
        VIEWPORT_VISIBILITY_LOOKUP_def)

section \<open>Frame rate and audio offset: properties\<close>

lemma named_unit_not_fps:
  "u \<in> {''game'', ''film'', ''pal'', ''ntsc'', ''show'', ''palf'', ''ntscf''}
   \<Longrightarrow> \<not> endswith u ''fps''"
  by (auto simp add: endswith_def)

lemma not_named_unit:
  assumes "r \<notin> {''game'', ''film'', ''pal'', ''ntsc'', ''show'', ''palf'', ''ntscf''}"
  shows "r \<noteq> ''game''" "r \<noteq> ''film''" "r \<noteq> ''pal''" "r \<noteq> ''ntsc''"
    "r \<noteq> ''show''" "r \<noteq> ''palf''" "r \<noteq> ''ntscf''"
  using assms by simp_all

text \<open>
  Claim C6: the seven named time units map to 15, 24, 25, 30, 48, 50 and 60; a string
  that ends in \<open>fps\<close> is handed, without that suffix, to \<open>float()\<close>, whose value is the
  frame rate (and whose \<open>ValueError\<close> ends the call); every other string raises
  \<open>RuntimeError\<close>.
\<close>

theorem get_frame_rate_table:
  "get_frame_rate pf ''game'' = Inr 15 \<and> get_frame_rate pf ''film'' = Inr 24
   \<and> get_frame_rate pf ''pal'' = Inr 25 \<and> get_frame_rate pf ''ntsc'' = Inr 30
   \<and> get_frame_rate pf ''show'' = Inr 48 \<and> get_frame_rate pf ''palf'' = Inr 50
   \<and> get_frame_rate pf ''ntscf'' = Inr 60
   \<and> (endswith r1 ''fps'' \<longrightarrow>
        get_frame_rate pf r1 =
          (case pf (take (length r1 - 3) r1) of None \<Rightarrow> Inl ValueError | Some v \<Rightarrow> Inr v))
   \<and> (pf ''29.97'' = Some (2997 / 100) \<longrightarrow> get_frame_rate pf ''29.97fps'' = Inr (2997 / 100))
   \<and> (r2 \<notin> {''game'', ''film'', ''pal'', ''ntsc'', ''show'', ''palf'', ''ntscf''}
        \<and> \<not> endswith r2 ''fps'' \<longrightarrow>
        get_frame_rate pf r2 = Inl RuntimeError)"
proof -
  have named: "get_frame_rate pf ''game'' = Inr 15 \<and> get_frame_rate pf ''film'' = Inr 24
   \<and> get_frame_rate pf ''pal'' = Inr 25 \<and> get_frame_rate pf ''ntsc'' = Inr 30
   \<and> get_frame_rate pf ''show'' = Inr 48 \<and> get_frame_rate pf ''palf'' = Inr 50
   \<and> get_frame_rate pf ''ntscf'' = Inr 60"
    by (simp add: get_frame_rate_def)
  have fps: "get_frame_rate pf r =
          (case pf (take (length r - 3) r) of None \<Rightarrow> Inl ValueError | Some v \<Rightarrow> Inr v)"
    if "endswith r ''fps''" for r
  proof -
    have "r \<notin> {''game'', ''film'', ''pal'', ''ntsc'', ''show'', ''palf'', ''ntscf''}"
      using that named_unit_not_fps by blast
    from not_named_unit [OF this] show ?thesis
      unfolding get_frame_rate_def using that by simp
  qed
  have ex: "get_frame_rate pf ''29.97fps'' = Inr (2997 / 100)"
    if "pf ''29.97'' = Some (2997 / 100)"
  proof -
    have "endswith ''29.97fps'' ''fps''" by (simp add: endswith_def)
    from fps [OF this] that show ?thesis by simp
  qed
  have other: "get_frame_rate pf r = Inl RuntimeError"
    if "r \<notin> {''game'', ''film'', ''pal'', ''ntsc'', ''show'', ''palf'', ''ntscf''}"
      "\<not> endswith r ''fps''" for r
    using not_named_unit [OF that(1)] that(2) unfolding get_frame_rate_def by simp
  show ?thesis
  proof (intro conjI impI)
    show "get_frame_rate pf r1 =
        (case pf (take (length r1 - 3) r1) of None \<Rightarrow> Inl ValueError | Some v \<Rightarrow> Inr v)"
      if "endswith r1 ''fps''"
      using that by (rule fps)
    show "get_frame_rate pf ''29.97fps'' = Inr (2997 / 100)"
      if "pf ''29.97'' = Some (2997 / 100)"
      using that by (rule ex)
    show "get_frame_rate pf r2 = Inl RuntimeError"
      if "r2 \<notin> {''game'', ''film'', ''pal'', ''ntsc'', ''show'', ''palf'', ''ntscf''}
        \<and> \<not> endswith r2 ''fps''"
      using that other by (elim conjE) 
  qed (use named in simp_all)
qed

theorem get_frame_rate_table_witness:
  "endswith ''29.97fps'' ''fps''
   \<and> get_frame_rate (\<lambda>t. if t = ''29.97'' then Some (2997 / 100) else None) ''29.97fps''
       = Inr (2997 / 100)
   \<and> ''bogus'' \<notin> {''game'', ''film'', ''pal'', ''ntsc'', ''show'', ''palf'', ''ntscf''}
   \<and> \<not> endswith ''bogus'' ''fps''
   \<and> get_frame_rate (\<lambda>t. if t = ''29.97'' then Some (2997 / 100) else None) ''bogus''
       = Inl RuntimeError
   \<and> get_frame_rate (\<lambda>t. if t = ''29.97'' then Some (2997 / 100) else None) ''ntsc'' = Inr 30"
proof -
  have h1: "endswith ''29.97fps'' ''fps''" by (simp add: endswith_def)
  have h2: "''bogus'' \<notin> {''game'', ''film'', ''pal'', ''ntsc'', ''show'', ''palf'', ''ntscf''}
      \<and> \<not> endswith ''bogus'' ''fps''"
    by (simp add: endswith_def)
  show ?thesis
    using h1 h2
      get_frame_rate_table [of "\<lambda>t. if t = ''29.97'' then Some (2997 / 100) else None"
        "''29.97fps''" "''bogus''"]
    by simp
qed

text \<open>
  Claim C7: for a start frame, an audio frame offset and a non-zero frame rate, the
  seek offset is their difference divided by the frame rate; for 10, 5 and 24 it is
  5/24. Floats are read as the reals they denote.
\<close>

theorem get_audio_offset_in_sec_formula:
  "(r \<noteq> 0 \<longrightarrow> get_audio_offset_in_sec s a r = Inr ((s - a) / r))
   \<and> get_audio_offset_in_sec 10 5 24 = Inr (5 / 24)"
  by (simp add: get_audio_offset_in_sec_def)

theorem get_audio_offset_in_sec_formula_witness:
  "(24::real) \<noteq> 0 \<and> get_audio_offset_in_sec 10 5 24 = Inr ((10 - 5) / 24)"
  using get_audio_offset_in_sec_formula [of 24 10 5] by simp

section \<open>The pre-flight check for an existing artifact\<close>

lemma errors_of_log_error [simp]: "errors_of (log_error s t) = log_error s t"
  by (simp add: errors_of_def log_error_def)

lemma errors_of_append [simp]: "errors_of (a @ b) = errors_of a @ errors_of b"
  by (simp add: errors_of_def)

lemma errors_of_Nil [simp]: "errors_of [] = []"
  by (simp add: errors_of_def)

lemma log_error_not_Nil [simp]: "log_error s t \<noteq> []"
  by (simp add: log_error_def)

lemma validate_ffmpeg_log:
  "errors_of (snd (validate_ffmpeg s h)) = snd (validate_ffmpeg s h)"
  "fst (validate_ffmpeg s h) \<Longrightarrow> snd (validate_ffmpeg s h) = []"
  by (auto simp add: validate_ffmpeg_def split: if_splits)

lemma get_viewport_panel_log:
  "errors_of (snd (get_viewport_panel s h)) = snd (get_viewport_panel s h)"
  "panel_truthy (fst (get_viewport_panel s h)) \<Longrightarrow> snd (get_viewport_panel s h) = []"
  by (auto simp add: get_viewport_panel_def Let_def panel_truthy_def split: if_splits)

lemma execute_preflight_existing_artifact:
  assumes "requires_ffmpeg s" and "\<not> overwrite"
    and "fs h (final_artifact_path x s h output_dir filename) \<noteq> None"
  shows "\<exists>lg. execute_preflight x s h output_dir filename padding show_ornaments show_in_viewer overwrite
           = Inl (Inr (), h, lg) \<and> lg \<noteq> [] \<and> errors_of lg = lg
         \<and> (fst (validate_ffmpeg s h) \<and> panel_truthy (fst (get_viewport_panel s h))
              \<and> truthy output_dir \<and> truthy filename \<longrightarrow>
            lg = log_error s ''Output file already exists. Enable overwrite to ignore.'')"
proof (cases "fst (validate_ffmpeg s h)")
  case False
  with assms(1) show ?thesis
    by (simp add: execute_preflight_def validate_ffmpeg_log)
next
  case valid: True
  obtain p lgp where gp: "get_viewport_panel s h = (p, lgp)" by (cases "get_viewport_panel s h")
  from gp get_viewport_panel_log [of s h] have lgp: "errors_of lgp = lgp" "panel_truthy p \<Longrightarrow> lgp = []"
    by simp_all
  show ?thesis
  proof (cases "panel_truthy p")
    case False
    with valid gp lgp show ?thesis by (simp add: execute_preflight_def)
  next
    case panel: True
    with lgp have [simp]: "lgp = []" by simp
    show ?thesis
    proof (cases "truthy output_dir \<and> truthy filename")
      case False
      with valid gp panel show ?thesis by (auto simp add: execute_preflight_def)
    next
      case True
      with valid gp panel assms show ?thesis
        by (simp add: execute_preflight_def final_artifact_path_def Let_def)
    qed
  qed
qed

text \<open>
  Claim C8: when encoding is required, \<open>overwrite\<close> is false and the final artifact
  path of line 568 exists, \<open>execute\<close> returns normally with the host as it found it
  (no file written, no viewport command issued, no viewer started) and with a log that
  holds errors only. When the call reaches line 568, that is when the checks of lines
  545 to 559 pass (encoder path valid, a model panel in focus, output directory and file
  name not empty), the log is exactly the one error of line 570.
\<close>

theorem execute_existing_artifact:
  assumes "requires_ffmpeg s" and "\<not> overwrite"
    and "fs h (final_artifact_path x s h output_dir filename) \<noteq> None"
  shows "fst (execute x s h output_dir filename padding show_ornaments show_in_viewer overwrite) = Inr ()
    \<and> fst (snd (execute x s h output_dir filename padding show_ornaments show_in_viewer overwrite)) = h
    \<and> snd (snd (execute x s h output_dir filename padding show_ornaments show_in_viewer overwrite)) \<noteq> []
    \<and> errors_of (snd (snd (execute x s h output_dir filename padding show_ornaments show_in_viewer overwrite)))
        = snd (snd (execute x s h output_dir filename padding show_ornaments show_in_viewer overwrite))
    \<and> (fst (validate_ffmpeg s h) \<and> panel_truthy (fst (get_viewport_panel s h))
          \<and> truthy output_dir \<and> truthy filename \<longrightarrow>
        snd (snd (execute x s h output_dir filename padding show_ornaments show_in_viewer overwrite))
          = [Entry ERROR ''Output file already exists. Enable overwrite to ignore.'' (self_log_to_maya s)])"
proof -
  from execute_preflight_existing_artifact [OF assms]
  obtain lg where lg: "execute_preflight x s h output_dir filename padding show_ornaments show_in_viewer overwrite
           = Inl (Inr (), h, lg)" "lg \<noteq> []" "errors_of lg = lg"
         "fst (validate_ffmpeg s h) \<and> panel_truthy (fst (get_viewport_panel s h))
              \<and> truthy output_dir \<and> truthy filename \<longrightarrow>
            lg = log_error s ''Output file already exists. Enable overwrite to ignore.''"
    by blast
  have "execute x s h output_dir filename padding show_ornaments show_in_viewer overwrite = (Inr (), h, lg)"
    using lg(1) by (simp add: execute_def)
  with lg(2-4) show ?thesis by (simp add: log_error_def)
qed

theorem execute_existing_artifact_witness:
  "requires_ffmpeg sample_controller \<and> \<not> False
   \<and> fs (sample_host\<lparr>fs := (fs sample_host)(''/proj/movies/shot.mp4'' := Some File)\<rparr>)
        (final_artifact_path sample_env sample_controller
           (sample_host\<lparr>fs := (fs sample_host)(''/proj/movies/shot.mp4'' := Some File)\<rparr>)
           ''{project}/movies'' ''{scene}'') \<noteq> None
   \<and> fst (validate_ffmpeg sample_controller
        (sample_host\<lparr>fs := (fs sample_host)(''/proj/movies/shot.mp4'' := Some File)\<rparr>))
   \<and> panel_truthy (fst (get_viewport_panel sample_controller
        (sample_host\<lparr>fs := (fs sample_host)(''/proj/movies/shot.mp4'' := Some File)\<rparr>)))
   \<and> truthy ''{project}/movies'' \<and> truthy ''{scene}''
   \<and> execute sample_env sample_controller
        (sample_host\<lparr>fs := (fs sample_host)(''/proj/movies/shot.mp4'' := Some File)\<rparr>)
        ''{project}/movies'' ''{scene}'' 4 True True False
       = (Inr (),
          sample_host\<lparr>fs := (fs sample_host)(''/proj/movies/shot.mp4'' := Some File)\<rparr>,
          [Entry ERROR ''Output file already exists. Enable overwrite to ignore.'' True])"
proof -
  let ?h = "sample_host\<lparr>fs := (fs sample_host)(''/proj/movies/shot.mp4'' := Some File)\<rparr>"
  have h1: "requires_ffmpeg sample_controller"
    by (simp add: requires_ffmpeg_def sample_controller_def)
  have h2: "\<not> False" by simp
  have p: "final_artifact_path sample_env sample_controller ?h ''{project}/movies'' ''{scene}''
      = ''/proj/movies/shot.mp4''"
    by (simp add: final_artifact_path_def sample_env_def sample_controller_def sample_host_def
          resolve_output_directory_path_def resolve_output_filename_def get_scene_name_def
          get_project_dir_path_def truthy_def)
  have h3: "fs ?h (final_artifact_path sample_env sample_controller ?h
      ''{project}/movies'' ''{scene}'') \<noteq> None"
    unfolding p by simp
  have h4: "fst (validate_ffmpeg sample_controller ?h)"
    by (simp add: validate_ffmpeg_def sample_controller_def sample_host_def truthy_def)
  have h5: "panel_truthy (fst (get_viewport_panel sample_controller ?h))"
    by (simp add: get_viewport_panel_def panel_truthy_def sample_host_def truthy_def)
  have h6: "truthy ''{project}/movies'' \<and> truthy ''{scene}''" by (simp add: truthy_def)
  have lm: "self_log_to_maya sample_controller" by (simp add: sample_controller_def)
  from execute_existing_artifact [OF h1 h2 h3, of 4 True True] h4 h5 h6 lm
  have "execute sample_env sample_controller ?h ''{project}/movies'' ''{scene}'' 4 True True False
       = (Inr (), ?h,
          [Entry ERROR ''Output file already exists. Enable overwrite to ignore.'' True])"
    by (simp add: prod_eq_iff)
  with h1 h3 h4 h5 h6 show ?thesis by simp
qed

section \<open>Resolution presets\<close>

lemma preset_to_resolution_table:
  "preset_to_resolution h ''Render'' = Inr (Some (defaultResolution_width h, defaultResolution_height h))"
  "preset_to_resolution h ''HD 1080'' = Inr (Some (1920, 1080))"
  "preset_to_resolution h ''HD 720'' = Inr (Some (1280, 720))"
  "preset_to_resolution h ''HD 540'' = Inr (Some (960, 540))"
  by (simp_all add: preset_to_resolution_def RESOLUTION_LOOKUP_def)

lemma set_resolution_Render_preset:
  "self_resolution_preset (fst (set_resolution s h0 (ResName ''Render''))) = Some ''Render''"
  by (simp add: set_resolution_def Let_def preset_to_resolution_table)

text \<open>
  Claim C9: with one of the four presets stored, \<open>get_resolution_width_height\<close>
  returns the table value for \<open>''HD 1080''\<close>, \<open>''HD 720''\<close> and \<open>''HD 540''\<close>, and for
  \<open>''Render''\<close> the render resolution of the host it is called on. The pair is positive
  for the table presets, and for \<open>''Render''\<close> whenever the host's render resolution is.
  Nothing is cached: after \<open>set_resolution(''Render'')\<close> on a host \<open>h0\<close>, the value
  resolved on a host \<open>h\<close> is the render resolution of \<open>h\<close>.
\<close>

theorem get_resolution_width_height_presets:
  assumes "self_resolution_preset s = Some P"
    and "P \<in> {''Render'', ''HD 1080'', ''HD 720'', ''HD 540''}"
  shows "get_resolution_width_height s h =
      Inr (if P = ''Render'' then (defaultResolution_width h, defaultResolution_height h)
           else if P = ''HD 1080'' then (1920, 1080)
           else if P = ''HD 720'' then (1280, 720)
           else (960, 540))
    \<and> (P \<noteq> ''Render'' \<or> (0 < defaultResolution_width h \<and> 0 < defaultResolution_height h) \<longrightarrow>
         (\<exists>w ht. get_resolution_width_height s h = Inr (w, ht) \<and> 0 < w \<and> 0 < ht))
    \<and> get_resolution_width_height (fst (set_resolution s h0 (ResName ''Render''))) h
         = Inr (defaultResolution_width h, defaultResolution_height h)"
proof -
  from assms(2) consider "P = ''Render''" | "P = ''HD 1080''" | "P = ''HD 720''" | "P = ''HD 540''"
    by auto
  then have res: "get_resolution_width_height s h =
      Inr (if P = ''Render'' then (defaultResolution_width h, defaultResolution_height h)
           else if P = ''HD 1080'' then (1920, 1080)
           else if P = ''HD 720'' then (1280, 720)
           else (960, 540))"
  proof cases
    case 1 with assms(1) show ?thesis
      by (simp add: get_resolution_width_height_def truthy_def preset_to_resolution_table)
  next
    case 2 with assms(1) show ?thesis
      by (simp add: get_resolution_width_height_def truthy_def preset_to_resolution_table)
  next
    case 3 with assms(1) show ?thesis
      by (simp add: get_resolution_width_height_def truthy_def preset_to_resolution_table)
  next
    case 4 with assms(1) show ?thesis
      by (simp add: get_resolution_width_height_def truthy_def preset_to_resolution_table)
  qed
  have lazy: "get_resolution_width_height (fst (set_resolution s h0 (ResName ''Render''))) h
         = Inr (defaultResolution_width h, defaultResolution_height h)"
    using set_resolution_Render_preset [of s h0]
    by (simp add: get_resolution_width_height_def truthy_def preset_to_resolution_table)
  have pos: "\<exists>w ht. get_resolution_width_height s h = Inr (w, ht) \<and> 0 < w \<and> 0 < ht"
    if "P \<noteq> ''Render'' \<or> (0 < defaultResolution_width h \<and> 0 < defaultResolution_height h)"
    using that res by auto
  from res pos lazy show ?thesis by simp
qed

theorem get_resolution_width_height_presets_witness:
  "self_resolution_preset (sample_controller\<lparr>self_resolution_preset := Some ''HD 720''\<rparr>)
     = Some ''HD 720''
   \<and> ''HD 720'' \<in> {''Render'', ''HD 1080'', ''HD 720'', ''HD 540''}
   \<and> get_resolution_width_height
        (sample_controller\<lparr>self_resolution_preset := Some ''HD 720''\<rparr>) sample_host
       = Inr (1280, 720)
   \<and> get_resolution_width_height
        (fst (set_resolution (sample_controller\<lparr>self_resolution_preset := Some ''HD 720''\<rparr>)
           (sample_host\<lparr>defaultResolution_width := 640, defaultResolution_height := 480\<rparr>)
           (ResName ''Render''))) sample_host
       = Inr (1920, 1080)"
proof -
  have h1: "self_resolution_preset (sample_controller\<lparr>self_resolution_preset := Some ''HD 720''\<rparr>)
     = Some ''HD 720''" by simp
  have h2: "''HD 720'' \<in> {''Render'', ''HD 1080'', ''HD 720'', ''HD 540''}" by simp
  show ?thesis
    using h1 h2 get_resolution_width_height_presets [OF h1 h2, of sample_host
        "sample_host\<lparr>defaultResolution_width := 640, defaultResolution_height := 480\<rparr>"]
    by (simp add: sample_host_def)
qed


section \<open>The encoder command line\<close>

text \<open>With a linked audio file no command line is built, whatever quality and preset.\<close>

lemma encode_h264_cmd_audio:
  assumes "get_frame_rate (py_float x) (currentUnit_time h) = Inr r" and "r \<noteq> 0"
    and "get_audio_attributes h = Some (Some (p, off))" and "truthy p"
    and "map_of H264_QUALITIES (self_h264_quality s) = Some crf"
  shows "encode_h264_cmd x s h source_path output_path start_frame = Inl NameError"
  using assms by (simp add: encode_h264_cmd_def get_audio_offset_in_sec_def Let_def)

text \<open>Without audio the command line has the documented form.\<close>

lemma encode_h264_cmd_no_audio:
  assumes "get_frame_rate (py_float x) (currentUnit_time h) = Inr r"
    and "get_audio_attributes h = Some None"
    and "map_of H264_QUALITIES (self_h264_quality s) = Some crf"
  shows "encode_h264_cmd x s h source_path output_path start_frame =
    Inr (self_ffmpeg_path s @ '' -y -framerate '' @ py_str_float x r
         @ '' -i '' @ dquote @ source_path @ dquote
         @ '' -c:v libx264 -crf:v '' @ str_nat crf
         @ '' -preset:v '' @ self_h264_preset s
         @ '' -profile high -level 4.0 -pix_fmt yuv420p''
         @ '' '' @ dquote @ output_path @ dquote)"
    and "crf \<in> {18, 20, 23, 26}"
  using assms by (auto simp add: encode_h264_cmd_def Let_def H264_QUALITIES_def split: if_splits)

text \<open>
  Claim C4 says that with an audio file present the command line carries the audio
  input and, after the codec options, the \<open>-filter_complex\<close> and \<open>-shortest\<close> options.
  The code builds no command line then: line 220 adds to the unbound name \<open>ffmpeg\<close>
  and \<open>encode_h264\<close> ends in a \<open>NameError\<close>. Here the host links the sound node
  \<open>take1\<close>, whose file exists.
\<close>

theorem encode_h264_cmd_audio_NameError:
  "encode_h264_cmd sample_env sample_controller (sample_host\<lparr>timeControl_sound := ''take1''\<rparr>)
     ''/proj/movies/playblast_temp/shot.%04d.png'' ''/proj/movies/shot.mp4'' 1 = Inl NameError"
  by (simp add: encode_h264_cmd_def sample_env_def sample_controller_def sample_host_def
        get_frame_rate_def get_audio_attributes_def get_audio_offset_in_sec_def truthy_def
        H264_QUALITIES_def Let_def)

text \<open>
  Claim C3 says that no exception leaves \<open>execute\<close>. Two do: with a linked sound
  node whose file exists, the \<open>NameError\<close> of line 220; with a linked sound node whose
  file is missing (\<open>take2\<close>), the \<open>TypeError\<close> of unpacking the \<open>None\<close> that
  \<open>get_audio_attributes\<close> returns. Both calls capture and restore first.
\<close>

theorem execute_raises:
  "fst (execute sample_env sample_controller (sample_host\<lparr>timeControl_sound := ''take1''\<rparr>)
     ''{project}/movies'' ''{scene}'' 4 True True False) = Inl NameError
   \<and> fst (execute sample_env sample_controller (sample_host\<lparr>timeControl_sound := ''take2''\<rparr>)
     ''{project}/movies'' ''{scene}'' 4 True True False) = Inl TypeError"
  by (simp add: execute_def execute_preflight_def execute_viewport_def execute_capture_def
        execute_encode_def encode_h264_def
        encode_h264_cmd_def sample_env_def sample_controller_def sample_host_def
        get_frame_rate_def get_audio_attributes_def get_audio_offset_in_sec_def truthy_def
        H264_QUALITIES_def Let_def requires_ffmpeg_def validate_ffmpeg_def
        get_viewport_panel_def panel_truthy_def resolve_output_directory_path_def
        resolve_output_filename_def get_scene_name_def get_project_dir_path_def
        get_resolution_width_height_def preset_to_resolution_def get_start_end_frame_def
        preset_to_frame_range_def get_active_camera_def set_active_camera_def
        lookThroughModelPanel_def str_opt_def get_viewport_visibility_def
        get_visibility_def create_viewport_visibility_flags_def VIEWPORT_VISIBILITY_LOOKUP_def
        set_viewport_visibility_def modelPanel_modelEditor_def log_error_def log_output_def
        DEFAULT_PADDING_def)

section \<open>Viewport restoration\<close>

lemma distinct_flag_names: "distinct (map snd VIEWPORT_VISIBILITY_LOOKUP)"
  by (simp add: VIEWPORT_VISIBILITY_LOOKUP_def)

lemma visibility_flags_loop_Inr:
  "visibility_flags_loop items d i fl = Inr m \<Longrightarrow> distinct (map snd items) \<Longrightarrow>
     (\<forall>k < length items. m (snd (items ! k)) = Some (d ! (i + k)))
     \<and> (\<forall>f. f \<notin> snd ` set items \<longrightarrow> m f = fl f)"
proof (induction items arbitrary: i fl)
  case Nil
  then show ?case by simp
next
  case (Cons item items)
  from Cons.prems(1) have i: "i < length d"
    and rest: "visibility_flags_loop items d (Suc i) (fl(snd item \<mapsto> d ! i)) = Inr m"
    by (auto split: if_splits)
  from Cons.prems(2) have dist: "distinct (map snd items)" and fresh: "snd item \<notin> snd ` set items"
    by auto
  from Cons.IH [OF rest dist]
  have nth: "\<forall>k < length items. m (snd (items ! k)) = Some (d ! (Suc i + k))"
    and other: "\<forall>f. f \<notin> snd ` set items \<longrightarrow> m f = (fl(snd item \<mapsto> d ! i)) f"
    by auto
  from other fresh have head: "m (snd item) = Some (d ! i)" by simp
  have "m (snd ((item # items) ! k)) = Some (d ! (i + k))" if "k < length (item # items)" for k
  proof (cases k)
    case 0
    with head show ?thesis by simp
  next
    case (Suc k')
    with that nth show ?thesis by simp
  qed
  moreover have "m f = fl f" if "f \<notin> snd ` set (item # items)" for f
    using that other by auto
  ultimately show ?case by auto
qed

lemma create_flags_of_snapshot:
  assumes "create_viewport_visibility_flags
      (Some (map (\<lambda>item. F (snd item)) VIEWPORT_VISIBILITY_LOOKUP)) = Inr m"
    and "item \<in> set VIEWPORT_VISIBILITY_LOOKUP"
  shows "m (snd item) = Some (F (snd item))"
proof -
  let ?L = VIEWPORT_VISIBILITY_LOOKUP
  from assms(1) have "visibility_flags_loop ?L (map (\<lambda>item. F (snd item)) ?L) 0 Map.empty = Inr m"
    by (simp add: create_viewport_visibility_flags_def)
  from visibility_flags_loop_Inr [OF this distinct_flag_names]
  have nth: "\<forall>k < length ?L. m (snd (?L ! k)) = Some (map (\<lambda>item. F (snd item)) ?L ! k)"
    by simp
  from assms(2) obtain k where k: "k < length ?L" "?L ! k = item"
    by (auto simp add: in_set_conv_nth)
  with nth show ?thesis by auto
qed

lemma viewport_snapshot_cong:
  assumes "focus_panel h' = focus_panel h"
    and "panel_camera h' (focus_panel h) = panel_camera h (focus_panel h)"
    and "\<And>item. item \<in> set VIEWPORT_VISIBILITY_LOOKUP \<Longrightarrow>
          editor_flags h' (focus_panel h) (snd item) = editor_flags h (focus_panel h) (snd item)"
  shows "viewport_snapshot s h' = viewport_snapshot s h"
  using assms
  by (simp add: viewport_snapshot_def get_active_camera_def get_viewport_visibility_def
        get_viewport_panel_def Let_def panel_truthy_def)

lemma same_viewport_snapshot:
  "same_viewport h h' \<Longrightarrow> viewport_snapshot s h' = viewport_snapshot s h"
  by (rule viewport_snapshot_cong) (simp_all add: same_viewport_def)

lemma same_viewport_refl [simp]: "same_viewport h h"
  by (simp add: same_viewport_def)

lemma same_viewport_fs [simp]: "same_viewport h (h'\<lparr>fs := f\<rparr>) = same_viewport h h'"
  by (simp add: same_viewport_def)

lemma same_viewport_launched [simp]: "same_viewport h (h'\<lparr>launched := l\<rparr>) = same_viewport h h'"
  by (simp add: same_viewport_def)

lemma encode_h264_same_viewport:
  "same_viewport h (fst (snd (encode_h264 x s h source_path output_path start_frame)))"
  by (simp add: encode_h264_def execute_ffmpeg_cmd_def split: sum.splits option.splits prod.splits)

lemma remove_temp_dir_same_viewport:
  "same_viewport h0 (fst (remove_temp_dir x s h d)) = same_viewport h0 h"
  by (simp add: remove_temp_dir_def Let_def split: prod.splits)

lemma open_in_viewer_same_viewport:
  "same_viewport h0 (fst (open_in_viewer s h p)) = same_viewport h0 h"
  by (simp add: open_in_viewer_def)

lemma execute_encode_same_viewport:
  "same_viewport h (fst (snd (execute_encode x s pd show_in_viewer h lg)))"
proof -
  obtain r h1 lg1 where e: "encode_h264 x s h
      (pd_playblast_output_dir pd @ ''/'' @ pd_filename pd @ ''.%0'' @ str_int (pd_padding pd) @ ''d.png'')
      (pd_output_path pd) (pd_start_frame pd) = (r, h1, lg1)"
    by (metis prod_cases3)
  from encode_h264_same_viewport [of h x s _ "pd_output_path pd" "pd_start_frame pd"] e
  have h1: "same_viewport h h1" by (metis fst_conv snd_conv)
  obtain h2 lg2 where r2: "remove_temp_dir x s h1 (pd_playblast_output_dir pd) = (h2, lg2)"
    by (cases "remove_temp_dir x s h1 (pd_playblast_output_dir pd)")
  with remove_temp_dir_same_viewport [of h x s h1 "pd_playblast_output_dir pd"] h1
  have h2: "same_viewport h h2" by simp
  obtain h3 lg3 where r3: "open_in_viewer s h2 (pd_output_path pd) = (h3, lg3)"
    by (cases "open_in_viewer s h2 (pd_output_path pd)")
  with open_in_viewer_same_viewport [of h s h2 "pd_output_path pd"] h2
  have h3: "same_viewport h h3" by simp
  obtain h4 lg4 where r4: "remove_temp_dir x s h (pd_playblast_output_dir pd) = (h4, lg4)"
    by (cases "remove_temp_dir x s h (pd_playblast_output_dir pd)")
  with remove_temp_dir_same_viewport [of h x s h "pd_playblast_output_dir pd"]
  have h4: "same_viewport h h4" by simp
  show ?thesis
    using e h1 r2 h2 r3 h3 r4 h4
    by (cases r) (simp_all add: execute_encode_def Let_def)
qed

lemma get_viewport_panel_model:
  assumes "panel_camera h (focus_panel h) \<noteq> None"
  shows "get_viewport_panel s h = (Some (focus_panel h), [])"
  using assms by (simp add: get_viewport_panel_def Let_def)

lemma get_viewport_panel_no_model:
  assumes "panel_camera h (focus_panel h) = None"
  shows "fst (get_viewport_panel s h) = None"
  using assms by (simp add: get_viewport_panel_def Let_def)

lemma execute_preflight_panel:
  assumes "execute_preflight x s h od fn pad orn siv ovw = Inr pd"
  shows "pd_panel pd = focus_panel h \<and> panel_camera h (focus_panel h) \<noteq> None
    \<and> truthy (focus_panel h)"
proof (cases "panel_camera h (focus_panel h) = None")
  case True
  obtain p lg where gp: "get_viewport_panel s h = (p, lg)" by (cases "get_viewport_panel s h")
  with get_viewport_panel_no_model [OF True, of s] have "p = None" by simp
  with assms gp show ?thesis
    by (simp add: execute_preflight_def panel_truthy_def split: if_splits)
next
  case False
  note gp = get_viewport_panel_model [OF False, of s]
  show ?thesis
  proof (cases "truthy (focus_panel h)")
    case True
    from assms have "pd_panel pd = focus_panel h"
      unfolding execute_preflight_def gp Let_def
      by (auto simp add: panel_truthy_def split: if_splits sum.splits prod.splits)
    with False True show ?thesis by simp
  next
    case nt: False
    with assms gp show ?thesis
      by (simp add: execute_preflight_def panel_truthy_def split: if_splits)
  qed
qed

lemma execute_viewport_Inr:
  assumes vp: "execute_viewport s h lg0 = Inr tx"
    and model: "panel_camera h (focus_panel h) \<noteq> None"
    and named: "truthy (focus_panel h)"
  shows "tx_orig_camera tx = panel_camera h (focus_panel h)"
    and "\<exists>cam. tx_host tx = lookThroughModelPanel cam (focus_panel h) h"
    and "\<And>item. item \<in> set VIEWPORT_VISIBILITY_LOOKUP \<Longrightarrow>
          tx_orig_visibility_flags tx (snd item)
            = Some (editor_flags h (focus_panel h) (snd item))"
proof -
  let ?p = "focus_panel h"
  have gac: "get_active_camera s h = (panel_camera h ?p, [])"
    using model named
    by (simp add: get_active_camera_def get_viewport_panel_model panel_truthy_def)
  have sac: "set_active_camera s h c = (lookThroughModelPanel (str_opt c) ?p h, [])" for c
    using model named
    by (simp add: set_active_camera_def get_viewport_panel_model panel_truthy_def)
  have gvv: "get_viewport_visibility s (lookThroughModelPanel c ?p h)
      = (Some (map (\<lambda>item. editor_flags h ?p (snd item)) VIEWPORT_VISIBILITY_LOOKUP), [])" for c
    using named
    by (simp add: get_viewport_visibility_def get_viewport_panel_def lookThroughModelPanel_def
          Let_def panel_truthy_def)
  from vp obtain c m where
    host: "tx_host tx = lookThroughModelPanel (str_opt c) ?p h"
    and orig: "tx_orig_camera tx = panel_camera h ?p"
    and flags: "create_viewport_visibility_flags
        (Some (map (\<lambda>item. editor_flags h ?p (snd item)) VIEWPORT_VISIBILITY_LOOKUP)) = Inr m"
    and m: "tx_orig_visibility_flags tx = m"
    unfolding execute_viewport_def gac Let_def
    by (auto simp add: sac gvv split: if_splits sum.splits prod.splits)
  from orig show "tx_orig_camera tx = panel_camera h ?p" .
  from host show "\<exists>cam. tx_host tx = lookThroughModelPanel cam ?p h" by blast
  show "tx_orig_visibility_flags tx (snd item) = Some (editor_flags h ?p (snd item))"
    if "item \<in> set VIEWPORT_VISIBILITY_LOOKUP" for item
    using create_flags_of_snapshot [OF flags that] m by simp
qed

lemma execute_capture_restores:
  assumes panel: "pd_panel pd = focus_panel h"
    and model: "panel_camera h (focus_panel h) \<noteq> None"
    and named: "truthy (focus_panel h)"
    and orig: "tx_orig_camera tx = panel_camera h (focus_panel h)"
    and host: "tx_host tx = lookThroughModelPanel cam (focus_panel h) h"
    and flags: "\<And>item. item \<in> set VIEWPORT_VISIBILITY_LOOKUP \<Longrightarrow>
          tx_orig_visibility_flags tx (snd item)
            = Some (editor_flags h (focus_panel h) (snd item))"
    and prim: "\<forall>opts h0. panel_camera h0 (focus_panel h0) \<noteq> None \<longrightarrow>
          focus_panel (snd (cmds_playblast x opts h0)) = focus_panel h0
          \<and> panel_camera (snd (cmds_playblast x opts h0)) (focus_panel h0) \<noteq> None"
  shows "\<exists>raised h5 lg. execute_capture x s pd tx = (Inr raised, h5, lg)
          \<and> viewport_snapshot s h5 = viewport_snapshot s h"
proof -
  let ?p = "focus_panel h"
  let ?h2 = "set_viewport_visibility (tx_host tx) ?p (tx_playblast_visibility_flags tx)"
  obtain raised h3 where pb: "cmds_playblast x (pd_options pd) ?h2 = (raised, h3)"
    by (cases "cmds_playblast x (pd_options pd) ?h2")
  have h2: "focus_panel ?h2 = ?p" "panel_camera ?h2 ?p \<noteq> None"
    using host by (simp_all add: set_viewport_visibility_def lookThroughModelPanel_def)
  with prim pb have h3: "focus_panel h3 = ?p" "panel_camera h3 ?p \<noteq> None"
    by (metis snd_conv)+
  have me: "modelPanel_modelEditor (tx_host tx) (pd_panel pd) = Inr ?p"
    using host panel by (simp add: modelPanel_modelEditor_def lookThroughModelPanel_def)
  from model obtain c0 where c0: "panel_camera h ?p = Some c0" by blast
  have sac: "set_active_camera s h3 (tx_orig_camera tx)
      = (lookThroughModelPanel c0 ?p h3, [])"
    using h3 named orig c0
    by (simp add: set_active_camera_def get_viewport_panel_def Let_def panel_truthy_def
          str_opt_def)
  let ?h5 = "set_viewport_visibility (lookThroughModelPanel c0 ?p h3) ?p
      (tx_orig_visibility_flags tx)"
  have run: "execute_capture x s pd tx =
      (Inr raised, ?h5,
       tx_log tx @ (if raised
                    then log_error s ''Failed to created playblast. See script editor for details''
                    else []))"
    by (simp add: execute_capture_def me pb sac Let_def)
  have "viewport_snapshot s ?h5 = viewport_snapshot s h"
  proof (rule viewport_snapshot_cong)
    show "focus_panel ?h5 = ?p"
      using h3 by (simp add: set_viewport_visibility_def lookThroughModelPanel_def)
    show "panel_camera ?h5 ?p = panel_camera h ?p"
      using c0 by (simp add: set_viewport_visibility_def lookThroughModelPanel_def)
    show "editor_flags ?h5 ?p (snd item) = editor_flags h ?p (snd item)"
      if "item \<in> set VIEWPORT_VISIBILITY_LOOKUP" for item
      using flags [OF that] by (simp add: set_viewport_visibility_def)
  qed
  with run show ?thesis by blast
qed

text \<open>
  Claim C1: a call of \<open>execute\<close> that reaches the capture step (the first two blocks
  end in \<open>Inr\<close>) leaves the viewport as it found it: the camera and the flags that
  \<open>get_active_camera\<close> and \<open>get_viewport_visibility\<close> return after the call are those
  they returned before it. This holds whether the capture primitive raises or not and
  whatever it does to cameras and flags, as long as it leaves the focus on the same
  model panel; what follows the capture (encoding, cleanup, viewer, or an exception
  on the way) does not touch the viewport.
\<close>

theorem execute_restores_viewport:
  assumes pre: "execute_preflight x s h output_dir filename padding show_ornaments
        show_in_viewer overwrite = Inr pd"
    and vp: "execute_viewport s h (pd_log pd) = Inr tx"
    and prim: "\<forall>opts h0. panel_camera h0 (focus_panel h0) \<noteq> None \<longrightarrow>
          focus_panel (snd (cmds_playblast x opts h0)) = focus_panel h0
          \<and> panel_camera (snd (cmds_playblast x opts h0)) (focus_panel h0) \<noteq> None"
  shows "viewport_snapshot s
           (fst (snd (execute x s h output_dir filename padding show_ornaments
              show_in_viewer overwrite)))
         = viewport_snapshot s h"
proof -
  from execute_preflight_panel [OF pre]
  have panel: "pd_panel pd = focus_panel h" and model: "panel_camera h (focus_panel h) \<noteq> None"
    and named: "truthy (focus_panel h)"
    by simp_all
  from execute_viewport_Inr(2) [OF vp model named]
  obtain cam where host: "tx_host tx = lookThroughModelPanel cam (focus_panel h) h" by blast
  from execute_capture_restores [OF panel model named
      execute_viewport_Inr(1) [OF vp model named] host
      execute_viewport_Inr(3) [OF vp model named] prim]
  obtain raised h5 lg where cap: "execute_capture x s pd tx = (Inr raised, h5, lg)"
    and snap: "viewport_snapshot s h5 = viewport_snapshot s h"
    by blast
  show ?thesis
  proof (cases raised)
    case True
    with pre vp cap snap show ?thesis by (simp add: execute_def)
  next
    case False
    with pre vp cap have "execute x s h output_dir filename padding show_ornaments
        show_in_viewer overwrite = execute_encode x s pd show_in_viewer h5 lg"
      by (simp add: execute_def)
    with same_viewport_snapshot [OF execute_encode_same_viewport [of h5 x s pd show_in_viewer lg], of s]
      snap show ?thesis by simp
  qed
qed

lemmas eval_defs =
        execute_def execute_preflight_def execute_viewport_def execute_capture_def
        execute_encode_def encode_h264_def
        encode_h264_cmd_def sample_env_def sample_controller_def sample_host_def
        get_frame_rate_def get_audio_attributes_def get_audio_offset_in_sec_def truthy_def
        H264_QUALITIES_def Let_def requires_ffmpeg_def validate_ffmpeg_def
        get_viewport_panel_def panel_truthy_def resolve_output_directory_path_def
        resolve_output_filename_def get_scene_name_def get_project_dir_path_def
        get_resolution_width_height_def preset_to_resolution_def get_start_end_frame_def
        preset_to_frame_range_def get_active_camera_def set_active_camera_def
        lookThroughModelPanel_def str_opt_def get_viewport_visibility_def
        get_visibility_def create_viewport_visibility_flags_def VIEWPORT_VISIBILITY_LOOKUP_def
        set_viewport_visibility_def modelPanel_modelEditor_def log_error_def log_output_def
        DEFAULT_PADDING_def

theorem execute_restores_viewport_witness:
  "\<not> isl (execute_preflight (sample_env\<lparr>cmds_playblast := disturbing_playblast True\<rparr>)
            (sample_controller\<lparr>self_camera := Some ''shotCam''\<rparr>) sample_host
            ''{project}/movies'' ''{scene}'' 4 True True False)
   \<and> viewport_snapshot (sample_controller\<lparr>self_camera := Some ''shotCam''\<rparr>)
        (fst (snd (execute (sample_env\<lparr>cmds_playblast := disturbing_playblast True\<rparr>)
           (sample_controller\<lparr>self_camera := Some ''shotCam''\<rparr>) sample_host
           ''{project}/movies'' ''{scene}'' 4 True True False)))
       = viewport_snapshot (sample_controller\<lparr>self_camera := Some ''shotCam''\<rparr>) sample_host
   \<and> viewport_snapshot (sample_controller\<lparr>self_camera := Some ''shotCam''\<rparr>)
        (fst (snd (execute (sample_env\<lparr>cmds_playblast := disturbing_playblast False\<rparr>)
           (sample_controller\<lparr>self_camera := Some ''shotCam''\<rparr>) sample_host
           ''{project}/movies'' ''{scene}'' 4 True True False)))
       = viewport_snapshot (sample_controller\<lparr>self_camera := Some ''shotCam''\<rparr>) sample_host
   \<and> fst (viewport_snapshot (sample_controller\<lparr>self_camera := Some ''shotCam''\<rparr>) sample_host)
       = Some ''persp''"
proof -
  let ?c = "sample_controller\<lparr>self_camera := Some ''shotCam''\<rparr>"
  let ?pre = "\<lambda>b. execute_preflight (sample_env\<lparr>cmds_playblast := disturbing_playblast b\<rparr>)
      ?c sample_host ''{project}/movies'' ''{scene}'' 4 True True False"
  have isr_pre: "\<not> isl (?pre b)" for b
    by (simp add: eval_defs)
  then have pre: "?pre b = Inr (projr (?pre b))" for b
    by simp
  have isr_vp: "\<not> isl (execute_viewport ?c sample_host (pd_log (projr (?pre b))))" for b
    by (simp add: eval_defs)
  then have vp: "execute_viewport ?c sample_host (pd_log (projr (?pre b)))
      = Inr (projr (execute_viewport ?c sample_host (pd_log (projr (?pre b)))))" for b
    by simp
  have prim: "\<forall>opts h0. panel_camera h0 (focus_panel h0) \<noteq> None \<longrightarrow>
      focus_panel (snd (cmds_playblast (sample_env\<lparr>cmds_playblast := disturbing_playblast b\<rparr>) opts h0))
        = focus_panel h0
      \<and> panel_camera (snd (cmds_playblast (sample_env\<lparr>cmds_playblast := disturbing_playblast b\<rparr>)
           opts h0)) (focus_panel h0) \<noteq> None" for b
    by (simp add: disturbing_playblast_def)
  have cam: "fst (viewport_snapshot ?c sample_host) = Some ''persp''"
    by (simp add: viewport_snapshot_def eval_defs)
  from isr_pre [of True] execute_restores_viewport [OF pre [of True] vp [of True] prim [of True]]
    execute_restores_viewport [OF pre [of False] vp [of False] prim [of False]] cam
  show ?thesis by simp
qed

end
